theory Spec2Isabelle
  imports Complex_Main "HOL-Library.Char_ord" "HOL-Library.List_Lexorder"
    "HOL-Library.Multiset" "HOL-Library.Sublist"
begin

section \<open>Python values\<close>

text \<open>
  Python strings are modelled as HOL strings (lists of 8-bit characters, read as the code
  points 0..255). Python floats are modelled as rationals: comparisons of floats are exact
  on their values, the arithmetic of the model is exact where the float arithmetic rounds.
\<close>

definition lower_char :: "char \<Rightarrow> char" where
  "lower_char c = (let n = (of_char c :: nat) in
     if (65 \<le> n \<and> n \<le> 90) \<or> (192 \<le> n \<and> n \<le> 222 \<and> n \<noteq> 215)
     then char_of (n + 32) else c)"

text \<open>\<^verbatim>\<open>s.lower()\<close>\<close>

definition lower :: "string \<Rightarrow> string" where
  "lower s = map lower_char s"

text \<open>\<^verbatim>\<open>w in s\<close> for strings: \<open>w\<close> occurs in \<open>s\<close> as a contiguous substring.\<close>

fun contains :: "string \<Rightarrow> string \<Rightarrow> bool" where
  "contains w [] = (w = [])"
| "contains w (c # cs) = (prefix w (c # cs) \<or> contains w cs)"

text \<open>\<^verbatim>\<open>os.path.basename(p)\<close> (POSIX): what follows the last slash.\<close>

definition basename :: "string \<Rightarrow> string" where
  "basename p = rev (takeWhile (\<lambda>c. c \<noteq> CHR ''/'') (rev p))"

text \<open>\<^verbatim>\<open>sep.join(parts)\<close>\<close>

fun join :: "string \<Rightarrow> string list \<Rightarrow> string" where
  "join sep [] = []"
| "join sep [x] = x"
| "join sep (x # y # ys) = x @ sep @ join sep (y # ys)"

definition nl :: string where
  "nl = [CHR 0x0A]"

text \<open>
  Exceptions, each with the text \<^verbatim>\<open>str(e)\<close> gives. The image agent tells three classes
  apart (\<^verbatim>\<open>Timeout\<close>, its own \<^verbatim>\<open>HTTPException\<close> with a \<^verbatim>\<open>detail\<close>, and
  \<^verbatim>\<open>RequestException\<close>); every other subclass of \<^verbatim>\<open>Exception\<close> is \<open>Error\<close>.
\<close>

datatype exn =
    Timeout string
  | HTTPException nat string
  | RequestException string
  | Error string

fun str_exn :: "exn \<Rightarrow> string" where
  "str_exn (Timeout m) = m"
| "str_exn (HTTPException code detail) = detail"
| "str_exn (RequestException m) = m"
| "str_exn (Error m) = m"

text \<open>
  JSON-like values: what \<^verbatim>\<open>json.loads\<close> returns and what the agents build. A \<^verbatim>\<open>dict\<close>
  is an association list in insertion order; its keys are strings and pairwise distinct.
\<close>

datatype json =
    JNull
  | JBool bool
  | JInt int
  | JFloat rat
  | JStr string
  | JArr "json list"
  | JObj "(string \<times> json) list"

type_synonym dict = "(string \<times> json) list"

text \<open>\<^verbatim>\<open>k in d\<close>\<close>

definition has_key :: "dict \<Rightarrow> string \<Rightarrow> bool" where
  "has_key d k = (k \<in> set (map fst d))"

text \<open>\<^verbatim>\<open>d.get(k, default)\<close>\<close>

definition dict_get :: "dict \<Rightarrow> string \<Rightarrow> json \<Rightarrow> json" where
  "dict_get d k dflt = (case map_of d k of Some v \<Rightarrow> v | None \<Rightarrow> dflt)"

text \<open>\<^verbatim>\<open>d[k] = v\<close>: an existing key keeps its place, a new key goes to the end.\<close>

definition dict_set :: "string \<Rightarrow> json \<Rightarrow> dict \<Rightarrow> dict" where
  "dict_set k v d =
     (if has_key d k then map (\<lambda>(k', v'). if k' = k then (k', v) else (k', v')) d
      else d @ [(k, v)])"

text \<open>\<^verbatim>\<open>d.update(m)\<close> for a dict \<open>m\<close>\<close>

definition dict_update :: "dict \<Rightarrow> dict \<Rightarrow> dict" where
  "dict_update d m = fold (\<lambda>(k, v) acc. dict_set k v acc) m d"

text \<open>\<^verbatim>\<open>v.get(k, default)\<close> on any value: only a dict has the method.\<close>

definition py_get :: "json \<Rightarrow> string \<Rightarrow> json \<Rightarrow> exn + json" where
  "py_get v k dflt =
     (case v of JObj d \<Rightarrow> Inr (dict_get d k dflt)
      | _ \<Rightarrow> Inl (Error ''AttributeError: object has no attribute get''))"

text \<open>Truth value of a Python object, as \<^verbatim>\<open>if x:\<close> and \<^verbatim>\<open>x or y\<close> test it.\<close>

fun truthy :: "json \<Rightarrow> bool" where
  "truthy JNull = False"
| "truthy (JBool b) = b"
| "truthy (JInt n) = (n \<noteq> 0)"
| "truthy (JFloat r) = (r \<noteq> 0)"
| "truthy (JStr s) = (s \<noteq> [])"
| "truthy (JArr xs) = (xs \<noteq> [])"
| "truthy (JObj d) = (d \<noteq> [])"

section \<open>meta\_agent: priority order\<close>

text \<open>
  \<^verbatim>\<open>
  def _parse_priority_from_instructions(instructions: str) -> List[str]:
      instr = (instructions or "").lower()
      buckets = []
      if any(w in instr for w in ("transcript", "audio")): buckets.append("audio")
      if any(w in instr for w in ("image", "photo", "fake")): buckets.append("images")
      if any(w in instr for w in ("video", "clip", "mp4")): buckets.append("video")
      if any(w in instr for w in ("doc", "file", "text")): buckets.append("documents")
      for t in ("documents", "video", "images", "audio"):
          if t not in buckets: buckets.append(t)
      return buckets
  \<close>
  \<^verbatim>\<open>None or ""\<close> is the empty string, so the argument is a string here.
\<close>

definition any_in :: "string list \<Rightarrow> string \<Rightarrow> bool" where
  "any_in ws instr = list_ex (\<lambda>w. contains w instr) ws"

definition append_missing :: "string list \<Rightarrow> string \<Rightarrow> string list" where
  "append_missing buckets t = (if t \<notin> set buckets then buckets @ [t] else buckets)"

definition parse_priority_from_instructions :: "string \<Rightarrow> string list" where
  "parse_priority_from_instructions instructions =
     (let instr = lower instructions;
          b0 = [];
          b1 = (if any_in [''transcript'', ''audio''] instr then b0 @ [''audio''] else b0);
          b2 = (if any_in [''image'', ''photo'', ''fake''] instr then b1 @ [''images''] else b1);
          b3 = (if any_in [''video'', ''clip'', ''mp4''] instr then b2 @ [''video''] else b2);
          b4 = (if any_in [''doc'', ''file'', ''text''] instr then b3 @ [''documents''] else b3)
      in foldl append_missing b4 [''documents'', ''video'', ''images'', ''audio''])"

text \<open>
  The keyword table read off the four tests, for stating which categories an instruction
  mentions.
\<close>

definition category_keywords :: "string \<Rightarrow> string list" where
  "category_keywords t =
     (if t = ''audio'' then [''transcript'', ''audio'']
      else if t = ''images'' then [''image'', ''photo'', ''fake'']
      else if t = ''video'' then [''video'', ''clip'', ''mp4'']
      else if t = ''documents'' then [''doc'', ''file'', ''text'']
      else [])"

definition mentioned :: "string \<Rightarrow> string \<Rightarrow> bool" where
  "mentioned instructions t = any_in (category_keywords t) (lower instructions)"

section \<open>Library functions\<close>

text \<open>
  The functions of the Python library that the code calls and whose results depend on more
  than this model holds (the digest, the spelling of strings and numbers in JSON, the parser)
  are parameters of the model.
  \<^item> \<open>sha256_hex s\<close>: \<^verbatim>\<open>hashlib.sha256(s.encode()).hexdigest()\<close>
  \<^item> \<open>encode_str s\<close>: the JSON string literal for \<open>s\<close>, quotes and escapes included
  \<^item> \<open>int_repr\<close>, \<open>float_repr\<close>: the JSON spelling of a number
  \<^item> \<open>format_value v\<close>: \<^verbatim>\<open>str(v)\<close> for a value that is not a string
  \<^item> \<open>dumps_indent2 xs\<close>: \<^verbatim>\<open>json.dumps(xs, indent=2)\<close> for a list of strings
  \<^item> \<open>loads s\<close>: \<^verbatim>\<open>json.loads(s)\<close>, \<open>Inl\<close> for the \<^verbatim>\<open>JSONDecodeError\<close>
  \<^item> \<open>py_float v\<close>: \<^verbatim>\<open>float(v)\<close>, \<open>Inl\<close> for its \<^verbatim>\<open>TypeError\<close> or \<^verbatim>\<open>ValueError\<close>
\<close>

record pylib =
  sha256_hex :: "string \<Rightarrow> string"
  encode_str :: "string \<Rightarrow> string"
  int_repr :: "int \<Rightarrow> string"
  float_repr :: "rat \<Rightarrow> string"
  format_value :: "json \<Rightarrow> string"
  dumps_indent2 :: "string list \<Rightarrow> string"
  loads :: "string \<Rightarrow> exn + json"
  py_float :: "json \<Rightarrow> exn + rat"

text \<open>\<^verbatim>\<open>str(v)\<close>, as an f-string inserts a value: a string is inserted as it is.\<close>

definition py_str :: "pylib \<Rightarrow> json \<Rightarrow> string" where
  "py_str L v = (case v of JStr s \<Rightarrow> s | _ \<Rightarrow> format_value L v)"

section \<open>meta\_agent: the proof hash\<close>

text \<open>
  \<^verbatim>\<open>
  def _make_hash(obj: Any) -> str:
      s = json.dumps(obj, sort_keys=True, separators=(",", ":"))
      return hashlib.sha256(s.encode()).hexdigest()
  \<close>
  With \<^verbatim>\<open>sort_keys\<close> the encoder writes the items of every dict in the order of
  \<^verbatim>\<open>sorted(d.items())\<close>, which for the distinct string keys of a dict is the order of the
  keys; the separators are a comma and a colon with no space.
\<close>

function dumps :: "pylib \<Rightarrow> json \<Rightarrow> string" where
  "dumps L JNull = ''null''"
| "dumps L (JBool b) = (if b then ''true'' else ''false'')"
| "dumps L (JInt n) = int_repr L n"
| "dumps L (JFloat r) = float_repr L r"
| "dumps L (JStr s) = encode_str L s"
| "dumps L (JArr xs) = ''['' @ join '','' (map (dumps L) xs) @ '']''"
| "dumps L (JObj kvs) =
     ''{'' @ join '','' (map (\<lambda>kv. encode_str L (fst kv) @ '':'' @ dumps L (snd kv))
                            (sort_key fst kvs)) @ ''}''"
  by pat_completeness auto
termination
proof (relation "measure (\<lambda>(L, j). size j)")
  show "wf (measure (\<lambda>(L, j). size j))" by simp
next
  fix L :: pylib and xs :: "json list" and x :: json
  assume "x \<in> set xs"
  then have "size x \<le> size_list size xs"
    by (rule size_list_estimation') simp
  then have "size x < Suc (size_list size xs)" by simp
  then show "((L, x), (L, JArr xs)) \<in> measure (\<lambda>(L, j). size j)" by simp
next
  fix L :: pylib and kvs :: "(string \<times> json) list" and kv :: "string \<times> json"
  assume "kv \<in> set (sort_key fst kvs)"
  then have "kv \<in> set kvs" by simp
  then have "size (snd kv) \<le> size_list (size_prod (\<lambda>_. 0) size) kvs"
    by (rule size_list_estimation') (cases kv, simp)
  then have "size (snd kv) < Suc (size_list (size_prod (\<lambda>_. 0) size) kvs)" by simp
  then show "((L, snd kv), (L, JObj kvs)) \<in> measure (\<lambda>(L, j). size j)" by simp
qed

definition make_hash :: "pylib \<Rightarrow> json \<Rightarrow> string" where
  "make_hash L obj = sha256_hex L (dumps L obj)"

section \<open>meta\_agent: classification\<close>

text \<open>
  \<^verbatim>\<open>
  buckets = {"images": [], "audio": [], "documents": [], "video": [], "unsupported": []}
  for p in file_paths:
      ext = p.rsplit(".", 1)[-1].lower() if "." in p else ""
      if ext in {"png", "jpg", "jpeg", "gif"}: buckets["images"].append(p)
      elif ext in {"mp4", "mov", "avi", "mkv"}: buckets["video"].append(p)
      elif ext in {"mp3", "wav", "m4a"}: buckets["audio"].append(p)
      elif ext in {"txt", "pdf", "docx"}: buckets["documents"].append(p)
      else: buckets["unsupported"].append(p)
  \<close>
  The dict of buckets has five fixed keys: a record.
\<close>

definition file_ext :: "string \<Rightarrow> string" where
  "file_ext p =
     (if CHR ''.'' \<in> set p then lower (rev (takeWhile (\<lambda>c. c \<noteq> CHR ''.'') (rev p))) else [])"

definition category_of :: "string \<Rightarrow> string" where
  "category_of p =
     (let ext = file_ext p in
      if ext \<in> set [''png'', ''jpg'', ''jpeg'', ''gif''] then ''images''
      else if ext \<in> set [''mp4'', ''mov'', ''avi'', ''mkv''] then ''video''
      else if ext \<in> set [''mp3'', ''wav'', ''m4a''] then ''audio''
      else if ext \<in> set [''txt'', ''pdf'', ''docx''] then ''documents''
      else ''unsupported'')"

record buckets =
  images :: "string list"
  audio :: "string list"
  documents :: "string list"
  video :: "string list"
  unsupported :: "string list"

definition empty_buckets :: buckets where
  "empty_buckets = \<lparr>images = [], audio = [], documents = [], video = [], unsupported = []\<rparr>"

definition classify :: "buckets \<Rightarrow> string \<Rightarrow> buckets" where
  "classify b p =
     (let ext = file_ext p in
      if ext \<in> set [''png'', ''jpg'', ''jpeg'', ''gif''] then b\<lparr>images := images b @ [p]\<rparr>
      else if ext \<in> set [''mp4'', ''mov'', ''avi'', ''mkv''] then b\<lparr>video := video b @ [p]\<rparr>
      else if ext \<in> set [''mp3'', ''wav'', ''m4a''] then b\<lparr>audio := audio b @ [p]\<rparr>
      else if ext \<in> set [''txt'', ''pdf'', ''docx''] then b\<lparr>documents := documents b @ [p]\<rparr>
      else b\<lparr>unsupported := unsupported b @ [p]\<rparr>)"

text \<open>\<^verbatim>\<open>buckets.get(t, [])\<close>\<close>

definition bucket_get :: "buckets \<Rightarrow> string \<Rightarrow> string list" where
  "bucket_get b t =
     (if t = ''images'' then images b
      else if t = ''audio'' then audio b
      else if t = ''documents'' then documents b
      else if t = ''video'' then video b
      else if t = ''unsupported'' then unsupported b
      else [])"

section \<open>meta\_agent: dispatching one file\<close>

text \<open>
  What the module calls lies outside it; the model takes it as the environment. Each
  agent is \<open>None\<close> when its import failed (the module then binds the name to \<^verbatim>\<open>None\<close>),
  and otherwise gives the outcome of the call: \<open>Inl e\<close> when the call raises \<open>e\<close>,
  \<open>Inr r\<close> when it returns \<open>r\<close>. The first argument of an agent is the number of files
  dispatched before this call, so that two calls on the same path may end differently.
  \<^item> \<open>image_agent\<close>: \<^verbatim>\<open>analyze_image_with_rd_and_gemini(file_path)\<close>
  \<^item> \<open>audio_agent\<close>: \<^verbatim>\<open>analyze_audio_file(file_path, key)\<close>
  \<^item> \<open>video_agent\<close>: \<^verbatim>\<open>run_video_forensics(file_path)\<close>
  \<^item> \<open>doc_agent\<close>: \<^verbatim>\<open>read_files_from_paths([file_path])\<close> and \<^verbatim>\<open>run_gemini_analysis(text)\<close>,
    imported together
  \<^item> \<open>ledger_log\<close>: \<^verbatim>\<open>log_verification_hash(hash)\<close>
  \<^item> \<open>gemini_api_key\<close>: whether \<^verbatim>\<open>GEMINI_API_KEY\<close> is set
  \<^item> \<open>assemblyai_env\<close>: \<^verbatim>\<open>os.getenv("ASSEMBLYAI_API_KEY")\<close>
  \<^item> \<open>generate_content\<close>: \<^verbatim>\<open>model.generate_content(context)\<close> followed by
    \<^verbatim>\<open>response.text\<close>
\<close>

record env =
  image_agent :: "(nat \<Rightarrow> string \<Rightarrow> exn + json) option"
  audio_agent :: "(nat \<Rightarrow> string \<Rightarrow> string option \<Rightarrow> exn + json) option"
  video_agent :: "(nat \<Rightarrow> string \<Rightarrow> exn + json) option"
  doc_agent :: "((nat \<Rightarrow> string list \<Rightarrow> exn + string) \<times> (nat \<Rightarrow> string \<Rightarrow> exn + json)) option"
  ledger_log :: "(string \<Rightarrow> exn + json) option"
  gemini_api_key :: bool
  assemblyai_env :: "string option"
  generate_content :: "string \<Rightarrow> exn + string"

text \<open>\<^verbatim>\<open>api_keys.get("assemblyai") or os.getenv("ASSEMBLYAI_API_KEY")\<close>\<close>

definition assemblyai_key :: "env \<Rightarrow> (string \<times> string) list \<Rightarrow> string option" where
  "assemblyai_key E api_keys =
     (case map_of api_keys ''assemblyai'' of
        Some k \<Rightarrow> if k \<noteq> [] then Some k else assemblyai_env E
      | None \<Rightarrow> assemblyai_env E)"

text \<open>
  \<^verbatim>\<open>
  async def _run_pipeline_for_file(file_path, ftype, api_keys):
      fname = os.path.basename(file_path)
      try:
          if ftype == "images":
              if not analyze_image_with_rd_and_gemini:
                  return {"file": fname, "error": "Image Agent missing"}
              res = await ... analyze_image_with_rd_and_gemini(file_path)
              return {"file": fname, "type": "image", "report": res}
          elif ftype == "audio":
              if not analyze_audio_file: return {"file": fname, "error": "Audio Agent missing"}
              key = api_keys.get("assemblyai") or os.getenv("ASSEMBLYAI_API_KEY")
              res = await loop.run_in_executor(None, analyze_audio_file, file_path, key)
              return {"file": fname, "type": "audio", "report": res}
          elif ftype == "video":
              if not run_video_forensics: return {"file": fname, "error": "Video Agent missing"}
              res = await loop.run_in_executor(None, run_video_forensics, file_path)
              return {"file": fname, "type": "video", "report": res}
          elif ftype == "documents":
              if not read_files_from_paths: return {"file": fname, "error": "Doc Agent missing"}
              text = read_files_from_paths([file_path])
              res = await loop.run_in_executor(None, run_gemini_analysis, text)
              return {"file": fname, "type": "document", "report": res, "text": text}
          return {"file": fname, "type": "unsupported"}
      except Exception as e:
          return {"file": fname, "type": ftype, "error": str(e)}
  \<close>
  The two ways of calling the image agent (coroutine or executor) give the same result.
\<close>

definition failed_item :: "string \<Rightarrow> string \<Rightarrow> exn \<Rightarrow> dict" where
  "failed_item fname ftype e =
     [(''file'', JStr fname), (''type'', JStr ftype), (''error'', JStr (str_exn e))]"

definition run_pipeline_for_file ::
  "env \<Rightarrow> nat \<Rightarrow> string \<Rightarrow> string \<Rightarrow> (string \<times> string) list \<Rightarrow> dict" where
  "run_pipeline_for_file E i file_path ftype api_keys =
     (let fname = basename file_path in
      if ftype = ''images'' then
        (case image_agent E of
           None \<Rightarrow> [(''file'', JStr fname), (''error'', JStr ''Image Agent missing'')]
         | Some analyze \<Rightarrow>
             (case analyze i file_path of
                Inl e \<Rightarrow> failed_item fname ftype e
              | Inr res \<Rightarrow> [(''file'', JStr fname), (''type'', JStr ''image''), (''report'', res)]))
      else if ftype = ''audio'' then
        (case audio_agent E of
           None \<Rightarrow> [(''file'', JStr fname), (''error'', JStr ''Audio Agent missing'')]
         | Some analyze \<Rightarrow>
             (case analyze i file_path (assemblyai_key E api_keys) of
                Inl e \<Rightarrow> failed_item fname ftype e
              | Inr res \<Rightarrow> [(''file'', JStr fname), (''type'', JStr ''audio''), (''report'', res)]))
      else if ftype = ''video'' then
        (case video_agent E of
           None \<Rightarrow> [(''file'', JStr fname), (''error'', JStr ''Video Agent missing'')]
         | Some analyze \<Rightarrow>
             (case analyze i file_path of
                Inl e \<Rightarrow> failed_item fname ftype e
              | Inr res \<Rightarrow> [(''file'', JStr fname), (''type'', JStr ''video''), (''report'', res)]))
      else if ftype = ''documents'' then
        (case doc_agent E of
           None \<Rightarrow> [(''file'', JStr fname), (''error'', JStr ''Doc Agent missing'')]
         | Some (read_files, analyze) \<Rightarrow>
             (case read_files i [file_path] of
                Inl e \<Rightarrow> failed_item fname ftype e
              | Inr text \<Rightarrow>
                  (case analyze i text of
                     Inl e \<Rightarrow> failed_item fname ftype e
                   | Inr res \<Rightarrow> [(''file'', JStr fname), (''type'', JStr ''document''),
                                 (''report'', res), (''text'', JStr text)])))
      else [(''file'', JStr fname), (''type'', JStr ''unsupported'')])"

section \<open>meta\_agent: the dispatch loop\<close>

text \<open>
  \<^verbatim>\<open>
  results = {"session_id": session_id, "results": []}
  aggregate_text_parts = []
  file_summaries = []
  for t in ordered_types:
      for f in buckets.get(t, []):
          item = await _run_pipeline_for_file(f, t, api_keys)
          results["results"].append(item)
          fname = os.path.basename(f)
          if t == "documents" and "text" in item:
              aggregate_text_parts.append(f"--- DOCUMENT: {fname} ---\n{item['text']}\n")
              danger = item.get("report", {}).get("misinformationAnalysis", {}).get("dangerScore", 0)
              file_summaries.append(f"{fname}: DANGER SCORE {danger}/100.")
          elif t == "audio" and "report" in item:
              transcript = item["report"].get("transcript", {}).get("text", "")
              if transcript: aggregate_text_parts.append(f"--- AUDIO: {fname} ---\n{transcript}\n")
          elif t == "video" and "report" in item:
              fake_ratio = item["report"].get("visual_analysis", {}).get("fake_ratio_percent", 0)
              file_summaries.append(f"{fname}: Video Fake Ratio: {fake_ratio}%")
  \<close>
  The three lists are the state of the loop. A \<^verbatim>\<open>.get\<close> on a report that is not a dict
  raises, outside every \<^verbatim>\<open>try\<close>: the loop then ends with that exception.
\<close>

record acc =
  results :: "json list"
  aggregate_text_parts :: "string list"
  file_summaries :: "string list"

definition process_file ::
  "pylib \<Rightarrow> env \<Rightarrow> (string \<times> string) list \<Rightarrow> string \<Rightarrow> string \<Rightarrow> acc \<Rightarrow> exn + acc" where
  "process_file L E api_keys t f st =
     (let item = run_pipeline_for_file E (length (results st)) f t api_keys;
          st1 = st\<lparr>results := results st @ [JObj item]\<rparr>;
          fname = basename f
      in
      if t = ''documents'' \<and> has_key item ''text'' then
        (let st2 = st1\<lparr>aggregate_text_parts := aggregate_text_parts st1 @
                     [''--- DOCUMENT: '' @ fname @ '' ---'' @ nl
                        @ py_str L (dict_get item ''text'' JNull) @ nl]\<rparr>
         in case py_get (dict_get item ''report'' (JObj [])) ''misinformationAnalysis'' (JObj []) of
              Inl e \<Rightarrow> Inl e
            | Inr mis \<Rightarrow>
                (case py_get mis ''dangerScore'' (JInt 0) of
                   Inl e \<Rightarrow> Inl e
                 | Inr danger \<Rightarrow>
                     Inr (st2\<lparr>file_summaries := file_summaries st2 @
                            [fname @ '': DANGER SCORE '' @ py_str L danger @ ''/100.'']\<rparr>)))
      else if t = ''audio'' \<and> has_key item ''report'' then
        (case py_get (dict_get item ''report'' JNull) ''transcript'' (JObj []) of
           Inl e \<Rightarrow> Inl e
         | Inr tr \<Rightarrow>
             (case py_get tr ''text'' (JStr []) of
                Inl e \<Rightarrow> Inl e
              | Inr transcript \<Rightarrow>
                  Inr (if truthy transcript
                       then st1\<lparr>aggregate_text_parts := aggregate_text_parts st1 @
                              [''--- AUDIO: '' @ fname @ '' ---'' @ nl
                                 @ py_str L transcript @ nl]\<rparr>
                       else st1)))
      else if t = ''video'' \<and> has_key item ''report'' then
        (case py_get (dict_get item ''report'' JNull) ''visual_analysis'' (JObj []) of
           Inl e \<Rightarrow> Inl e
         | Inr vis \<Rightarrow>
             (case py_get vis ''fake_ratio_percent'' (JInt 0) of
                Inl e \<Rightarrow> Inl e
              | Inr fake_ratio \<Rightarrow>
                  Inr (st1\<lparr>file_summaries := file_summaries st1 @
                         [fname @ '': Video Fake Ratio: '' @ py_str L fake_ratio @ ''%'']\<rparr>)))
      else Inr st1)"

text \<open>The inner loop, over the files of one category.\<close>

fun process_bucket ::
  "pylib \<Rightarrow> env \<Rightarrow> (string \<times> string) list \<Rightarrow> string \<Rightarrow> string list \<Rightarrow> acc \<Rightarrow> exn + acc" where
  "process_bucket L E api_keys t [] st = Inr st"
| "process_bucket L E api_keys t (f # fs) st =
     (case process_file L E api_keys t f st of
        Inl e \<Rightarrow> Inl e
      | Inr st' \<Rightarrow> process_bucket L E api_keys t fs st')"

text \<open>The outer loop, over the categories in priority order.\<close>

fun process_types ::
  "pylib \<Rightarrow> env \<Rightarrow> (string \<times> string) list \<Rightarrow> buckets \<Rightarrow> string list \<Rightarrow> acc \<Rightarrow> exn + acc" where
  "process_types L E api_keys b [] st = Inr st"
| "process_types L E api_keys b (t # ts) st =
     (case process_bucket L E api_keys t (bucket_get b t) st of
        Inl e \<Rightarrow> Inl e
      | Inr st' \<Rightarrow> process_types L E api_keys b ts st')"

definition empty_acc :: acc where
  "empty_acc = \<lparr>results = [], aggregate_text_parts = [], file_summaries = []\<rparr>"

text \<open>Lines 104 to 135 of \<^verbatim>\<open>meta_process\<close>: classification, then the two loops.\<close>

definition dispatch ::
  "pylib \<Rightarrow> env \<Rightarrow> string list \<Rightarrow> string \<Rightarrow> (string \<times> string) list option \<Rightarrow> exn + acc" where
  "dispatch L E file_paths user_instructions api_keys =
     (let api_keys' = (case api_keys of None \<Rightarrow> [] | Some d \<Rightarrow> d);
          ordered_types = parse_priority_from_instructions user_instructions;
          b = foldl classify empty_buckets file_paths
      in process_types L E api_keys' b ordered_types empty_acc)"

section \<open>meta\_agent: synthesis and stamping\<close>

text \<open>
  \<^verbatim>\<open>
  async def _generate_meta_intelligence(aggregate_text, user_instructions, file_summaries):
      if not GEMINI_API_KEY:
          return {"final_summary": "AI key missing.", "entities": [], "relations": []}
      context = f"""
      You are the 'Meta-Investigator' AI.
      USER INSTRUCTIONS: {user_instructions}
      FILE SUMMARIES: {json.dumps(file_summaries, indent=2)}
      EVIDENCE: {aggregate_text[:25000]}
      """
      model = genai.GenerativeModel(...)
      response = await loop.run_in_executor(None, model.generate_content, context)
      try:
          return json.loads(response.text)
      except json.JSONDecodeError:
          return {"final_summary": response.text[:500], "entities": [], "relations": []}
  \<close>
  An exception of the call itself is not caught here.
\<close>

definition meta_context :: "pylib \<Rightarrow> string \<Rightarrow> string \<Rightarrow> string list \<Rightarrow> string" where
  "meta_context L aggregate_text user_instructions summaries =
     nl @ ''    You are the '' @ [CHR 0x27] @ ''Meta-Investigator'' @ [CHR 0x27] @ '' AI.'' @ nl
     @ ''    USER INSTRUCTIONS: '' @ user_instructions @ nl
     @ ''    FILE SUMMARIES: '' @ dumps_indent2 L summaries @ nl
     @ ''    EVIDENCE: '' @ take 25000 aggregate_text @ nl
     @ ''    ''"

definition generate_meta_intelligence ::
  "pylib \<Rightarrow> env \<Rightarrow> string \<Rightarrow> string \<Rightarrow> string list \<Rightarrow> exn + json" where
  "generate_meta_intelligence L E aggregate_text user_instructions summaries =
     (if \<not> gemini_api_key E
      then Inr (JObj [(''final_summary'', JStr ''AI key missing.''),
                      (''entities'', JArr []), (''relations'', JArr [])])
      else
        (case generate_content E (meta_context L aggregate_text user_instructions summaries) of
           Inl e \<Rightarrow> Inl e
         | Inr text \<Rightarrow>
             (case loads L text of
                Inr j \<Rightarrow> Inr j
              | Inl e \<Rightarrow> Inr (JObj [(''final_summary'', JStr (take 500 text)),
                                    (''entities'', JArr []), (''relations'', JArr [])]))))"

text \<open>
  \<^verbatim>\<open>results.update(meta_output)\<close>, where \<^verbatim>\<open>meta_output\<close> is whatever the parser returned.
  A dict is merged key by key, a later value replacing an earlier one. Any other iterable
  is read as a sequence of key/value pairs: a two-element list, a two-character string, or a
  dict of two keys (iterated by key). A number, a boolean, \<^verbatim>\<open>None\<close>, or an element that
  is not a pair, raises. A pair whose key is not a string either raises here (unhashable) or
  makes \<^verbatim>\<open>json.dumps(..., sort_keys=True)\<close> raise two lines later, since the key cannot be
  ordered against the string keys already present; in both cases \<^verbatim>\<open>meta_process\<close> raises, and
  the model, whose dicts have string keys, gives the exception here.
\<close>

fun as_pair :: "json \<Rightarrow> (string \<times> json) option" where
  "as_pair (JArr [JStr k, v]) = Some (k, v)"
| "as_pair (JStr [a, b]) = Some ([a], JStr [b])"
| "as_pair (JObj [(k1, v1), (k2, v2)]) = Some (k1, JStr k2)"
| "as_pair _ = None"

definition py_update :: "dict \<Rightarrow> json \<Rightarrow> exn + dict" where
  "py_update d m =
     (case m of
        JObj kvs \<Rightarrow> Inr (dict_update d kvs)
      | JArr items \<Rightarrow>
          (if list_all (\<lambda>x. as_pair x \<noteq> None) items
           then Inr (dict_update d (List.map_filter as_pair items))
           else Inl (Error ''TypeError: cannot convert dictionary update sequence element''))
      | JStr s \<Rightarrow>
          (if s = [] then Inr d
           else Inl (Error ''ValueError: dictionary update sequence element has length 1''))
      | _ \<Rightarrow> Inl (Error ''TypeError: object is not iterable''))"

text \<open>
  \<^verbatim>\<open>
  results.update(meta_output)
  proof_hash = _make_hash(results)
  results["proof_hash"] = proof_hash
  if log_verification_hash:
      try: results["blockchain_tx"] = log_verification_hash(f"0x{proof_hash}")
      except Exception as e: results["blockchain_tx"] = {"error": str(e)}
  return results
  \<close>
\<close>

definition stamp :: "pylib \<Rightarrow> env \<Rightarrow> dict \<Rightarrow> dict" where
  "stamp L E bundle =
     (let proof_hash = make_hash L (JObj bundle);
          stamped = dict_set ''proof_hash'' (JStr proof_hash) bundle
      in case ledger_log E of
           None \<Rightarrow> stamped
         | Some log_hash \<Rightarrow>
             (case log_hash (''0x'' @ proof_hash) of
                Inr tx \<Rightarrow> dict_set ''blockchain_tx'' tx stamped
              | Inl e \<Rightarrow> dict_set ''blockchain_tx'' (JObj [(''error'', JStr (str_exn e))]) stamped))"

text \<open>The bundle as it is when the hash is taken: the dispatch results merged with the meta report.\<close>

definition merged_bundle :: "string \<Rightarrow> acc \<Rightarrow> json \<Rightarrow> exn + dict" where
  "merged_bundle session_id st meta_output =
     py_update [(''session_id'', JStr session_id), (''results'', JArr (results st))] meta_output"

definition meta_process ::
  "pylib \<Rightarrow> env \<Rightarrow> string \<Rightarrow> string list \<Rightarrow> string \<Rightarrow> (string \<times> string) list option
     \<Rightarrow> exn + dict" where
  "meta_process L E session_id file_paths user_instructions api_keys =
     (case dispatch L E file_paths user_instructions api_keys of
        Inl e \<Rightarrow> Inl e
      | Inr st \<Rightarrow>
          (let full_text = join nl (aggregate_text_parts st) in
           case generate_meta_intelligence L E full_text user_instructions (file_summaries st) of
             Inl e \<Rightarrow> Inl e
           | Inr meta_output \<Rightarrow>
               (case merged_bundle session_id st meta_output of
                  Inl e \<Rightarrow> Inl e
                | Inr bundle \<Rightarrow> Inr (stamp L E bundle))))"

section \<open>image\_deepfake\_agent\<close>

text \<open>\<^verbatim>\<open>round(x, 2)\<close>: to the nearest hundredth, a tie going to the even one.\<close>

definition round2 :: "rat \<Rightarrow> rat" where
  "round2 x =
     (let n = x * 100; f = \<lfloor>n\<rfloor>; d = n - of_int f
      in of_int (if d < 1 / 2 then f else if 1 / 2 < d then f + 1
                 else if even f then f else f + 1) / 100)"

text \<open>
  The remote steps of one image analysis, each with its outcome:
  \<^item> \<open>presigned\<close>: \<^verbatim>\<open>request_presigned_url(original_name)\<close>, the signed URL and the request id
  \<^item> \<open>upload\<close>: \<^verbatim>\<open>upload_file_to_signed_url(signed_url, file_path)\<close>
  \<^item> \<open>url_request_id\<close>: \<^verbatim>\<open>extract_request_id_from_url(signed_url)\<close>
  \<^item> \<open>rd_result\<close>: \<^verbatim>\<open>get_rd_result(request_id)\<close>
  \<^item> \<open>explanation\<close>: \<^verbatim>\<open>generate_explanation(file_path, tamper_pct)\<close>
\<close>

record image_world =
  presigned :: "exn + (string \<times> json)"
  upload :: "exn + unit"
  url_request_id :: "exn + json"
  rd_result :: "json \<Rightarrow> exn + json"
  explanation :: "rat \<Rightarrow> exn + string"

text \<open>
  The body of the \<^verbatim>\<open>try\<close> of \<^verbatim>\<open>analyze_image_with_rd_and_gemini\<close>:
  \<^verbatim>\<open>
  signed_url, request_id = request_presigned_url(original_name)
  upload_file_to_signed_url(signed_url, file_path)
  if not request_id:
      request_id = extract_request_id_from_url(signed_url)
  if not request_id:
      raise HTTPException(500, "Request ID missing from RD response.")
  rd_data = get_rd_result(request_id)
  metadata = rd_data.get("resultsSummary", {}).get("metadata", {}) or {}
  tamper_pct = float(metadata.get("finalScore", 0.0))
  explanation = generate_explanation(file_path, tamper_pct)
  authenticity_score = max(0.0, min(1.0, (100.0 - tamper_pct) / 100.0))
  if tamper_pct < 25: verdict = "Likely Original"
  elif tamper_pct < 60: verdict = "Possibly Manipulated"
  else: verdict = "Likely Deepfake / Manipulated"
  return {"verdict": verdict, "authenticity_score": round(authenticity_score, 2),
          "tamperingPercentage": tamper_pct, "explanation": explanation, "rd_raw": rd_data}
  \<close>
\<close>

definition image_report :: "rat \<Rightarrow> string \<Rightarrow> json \<Rightarrow> dict" where
  "image_report tamper_pct expl rd_data =
     (let authenticity_score = max 0 (min 1 ((100 - tamper_pct) / 100));
          verdict = (if tamper_pct < 25 then ''Likely Original''
                     else if tamper_pct < 60 then ''Possibly Manipulated''
                     else ''Likely Deepfake / Manipulated'')
      in [(''verdict'', JStr verdict),
          (''authenticity_score'', JFloat (round2 authenticity_score)),
          (''tamperingPercentage'', JFloat tamper_pct),
          (''explanation'', JStr expl),
          (''rd_raw'', rd_data)])"

definition image_score :: "pylib \<Rightarrow> json \<Rightarrow> exn + rat" where
  "image_score L rd_data =
     (case py_get rd_data ''resultsSummary'' (JObj []) of
        Inl e \<Rightarrow> Inl e
      | Inr summary \<Rightarrow>
          (case py_get summary ''metadata'' (JObj []) of
             Inl e \<Rightarrow> Inl e
           | Inr m \<Rightarrow>
               (case py_get (if truthy m then m else JObj []) ''finalScore'' (JFloat 0) of
                  Inl e \<Rightarrow> Inl e
                | Inr score \<Rightarrow> py_float L score)))"

definition image_try :: "pylib \<Rightarrow> image_world \<Rightarrow> exn + dict" where
  "image_try L W =
     (case presigned W of
        Inl e \<Rightarrow> Inl e
      | Inr (signed_url, request_id) \<Rightarrow>
          (case upload W of
             Inl e \<Rightarrow> Inl e
           | Inr u \<Rightarrow>
               (case (if truthy request_id then Inr request_id else url_request_id W) of
                  Inl e \<Rightarrow> Inl e
                | Inr rid \<Rightarrow>
                    if \<not> truthy rid
                    then Inl (HTTPException 500 ''Request ID missing from RD response.'')
                    else
                      (case rd_result W rid of
                         Inl e \<Rightarrow> Inl e
                       | Inr rd_data \<Rightarrow>
                           (case image_score L rd_data of
                              Inl e \<Rightarrow> Inl e
                            | Inr tamper_pct \<Rightarrow>
                                (case explanation W tamper_pct of
                                   Inl e \<Rightarrow> Inl e
                                 | Inr expl \<Rightarrow> Inr (image_report tamper_pct expl rd_data)))))))"

text \<open>
  The four handlers, in the order of the source: \<^verbatim>\<open>Timeout\<close>, \<^verbatim>\<open>HTTPException\<close>,
  \<^verbatim>\<open>RequestException\<close>, \<^verbatim>\<open>Exception\<close>.
\<close>

definition image_error_report :: "string \<Rightarrow> string \<Rightarrow> string \<Rightarrow> dict" where
  "image_error_report verdict expl err =
     [(''verdict'', JStr verdict),
      (''authenticity_score'', JFloat 0),
      (''tamperingPercentage'', JFloat 0),
      (''explanation'', JStr expl),
      (''rd_raw'', JObj [(''error'', JStr err)])]"

fun image_handler :: "exn \<Rightarrow> dict" where
  "image_handler (Timeout m) =
     image_error_report ''Unknown''
       ''Image analysis service (Reality Defender) timed out. Please retry after some time.''
       ''RD timeout''"
| "image_handler (HTTPException code detail) =
     image_error_report ''Error'' (''Image analysis failed: '' @ detail)
       (str_exn (HTTPException code detail))"
| "image_handler (RequestException m) =
     image_error_report ''Error'' (''Network error while calling Reality Defender: '' @ m) m"
| "image_handler (Error m) =
     image_error_report ''Error'' (''Unexpected error in image analysis: '' @ m) m"

definition analyze_image_with_rd_and_gemini :: "pylib \<Rightarrow> image_world \<Rightarrow> dict" where
  "analyze_image_with_rd_and_gemini L W =
     (case image_try L W of Inr report \<Rightarrow> report | Inl e \<Rightarrow> image_handler e)"

section \<open>video\_agent\<close>

text \<open>
  One video: the result of \<^verbatim>\<open>extract_basic_metadata\<close> (which has its own handler and
  always returns a dict), whether the capture opens, the frame rate it reports, and the frames
  \<^verbatim>\<open>cap.read()\<close> delivers before it reports the end. A frame is \<open>Inl e\<close> when writing the
  snapshot raises \<open>e\<close>, and otherwise the world of the image analysis of that snapshot.
\<close>

record video_world =
  metadata :: json
  opened :: bool
  fps :: rat
  frames :: "(exn + image_world) list"

record scan =
  total_analyzed :: nat
  fake_frames :: nat
  highest_fake_score :: rat

text \<open>The value of a number in a comparison or a subtraction; anything else raises there.\<close>

fun num_of :: "json \<Rightarrow> rat option" where
  "num_of (JInt n) = Some (of_int n)"
| "num_of (JFloat r) = Some r"
| "num_of (JBool b) = Some (if b then 1 else 0)"
| "num_of _ = None"

text \<open>
  The \<^verbatim>\<open>try\<close> inside the loop:
  \<^verbatim>\<open>
  try:
      cv2.imwrite(temp_img, frame)
      result = analyze_image_with_rd_and_gemini(temp_img)
      tamper_score = result.get("tamperingPercentage", 0.0)
      if tamper_score > highest_fake_score:
          highest_fake_score = tamper_score
      if tamper_score > 60:
          fake_frames += 1
      total_analyzed += 1
  except Exception as e:
      logger.warning(f"Frame analysis failed: {e}")
  \<close>
\<close>

definition analyze_frame :: "pylib \<Rightarrow> exn + image_world \<Rightarrow> scan \<Rightarrow> scan" where
  "analyze_frame L frame s =
     (case frame of
        Inl e \<Rightarrow> s
      | Inr W \<Rightarrow>
          (case num_of (dict_get (analyze_image_with_rd_and_gemini L W)
                          ''tamperingPercentage'' (JFloat 0)) of
             None \<Rightarrow> s
           | Some tamper_score \<Rightarrow>
               s\<lparr>highest_fake_score :=
                    (if highest_fake_score s < tamper_score then tamper_score
                     else highest_fake_score s),
                  fake_frames := (if 60 < tamper_score then fake_frames s + 1 else fake_frames s),
                  total_analyzed := total_analyzed s + 1\<rparr>))"

text \<open>
  \<^verbatim>\<open>
  while True:
      ret, frame = cap.read()
      if not ret: break
      if frame_idx % frame_interval == 0:
          try: ...
      frame_idx += 1
  \<close>
  The remainder is taken outside the \<^verbatim>\<open>try\<close>: with an interval of zero it raises
  \<^verbatim>\<open>ZeroDivisionError\<close> at the first frame.
\<close>

fun scan_frames ::
  "pylib \<Rightarrow> nat \<Rightarrow> nat \<Rightarrow> (exn + image_world) list \<Rightarrow> scan \<Rightarrow> exn + scan" where
  "scan_frames L frame_interval frame_idx [] s = Inr s"
| "scan_frames L frame_interval frame_idx (frame # rest) s =
     (if frame_interval = 0 then Inl (Error ''integer modulo by zero'')
      else scan_frames L frame_interval (Suc frame_idx) rest
             (if frame_idx mod frame_interval = 0 then analyze_frame L frame s else s))"

text \<open>
  \<^verbatim>\<open>
  fps = cap.get(cv2.CAP_PROP_FPS)
  if fps <= 0: fps = 30
  seconds_per_check = 2.0
  frame_interval = int(fps * seconds_per_check)
  \<close>
\<close>

definition frame_interval_of :: "rat \<Rightarrow> nat" where
  "frame_interval_of f = nat \<lfloor>(if f \<le> 0 then 30 else f) * 2\<rfloor>"

text \<open>
  \<^verbatim>\<open>
  fake_ratio = (fake_frames / total_analyzed * 100) if total_analyzed > 0 else 0
  return {"frames_analyzed": total_analyzed, "fake_frames_count": fake_frames,
          "fake_ratio_percent": round(fake_ratio, 2),
          "max_fake_score": round(highest_fake_score, 2),
          "analysis_strategy": "Full Timeline (1 frame / 2s)"}
  \<close>
  \<^verbatim>\<open>round(0, 2)\<close> of the integer zero is the integer zero.
\<close>

definition frame_summary :: "scan \<Rightarrow> dict" where
  "frame_summary s =
     [(''frames_analyzed'', JInt (int (total_analyzed s))),
      (''fake_frames_count'', JInt (int (fake_frames s))),
      (''fake_ratio_percent'',
         (if 0 < total_analyzed s
          then JFloat (round2 (of_nat (fake_frames s) / of_nat (total_analyzed s) * 100))
          else JInt 0)),
      (''max_fake_score'', JFloat (round2 (highest_fake_score s))),
      (''analysis_strategy'', JStr ''Full Timeline (1 frame / 2s)'')]"

definition analyze_video_frames :: "pylib \<Rightarrow> video_world \<Rightarrow> exn + dict" where
  "analyze_video_frames L V =
     (if \<not> opened V then Inr [(''error'', JStr ''Could not open video file'')]
      else
        (case scan_frames L (frame_interval_of (fps V)) 0 (frames V)
                \<lparr>total_analyzed = 0, fake_frames = 0, highest_fake_score = 0\<rparr> of
           Inl e \<Rightarrow> Inl e
         | Inr s \<Rightarrow> Inr (frame_summary s)))"

text \<open>
  \<^verbatim>\<open>
  def run_video_forensics(video_path):
      meta = extract_basic_metadata(video_path)
      visuals = analyze_video_frames(video_path)
      verdict = "Likely Original"
      if visuals.get("fake_frames_count", 0) > 0:
          verdict = "Tampering Detected"
      return {"verdict": verdict,
              "authenticity_score": (100 - visuals.get("max_fake_score", 0)) / 100.0,
              "metadata": meta, "visual_analysis": visuals}
  \<close>
\<close>

definition run_video_forensics :: "pylib \<Rightarrow> video_world \<Rightarrow> exn + dict" where
  "run_video_forensics L V =
     (case analyze_video_frames L V of
        Inl e \<Rightarrow> Inl e
      | Inr visuals \<Rightarrow>
          (case num_of (dict_get visuals ''fake_frames_count'' (JInt 0)) of
             None \<Rightarrow> Inl (Error ''TypeError: > not supported'')
           | Some fake_count \<Rightarrow>
               (case num_of (dict_get visuals ''max_fake_score'' (JInt 0)) of
                  None \<Rightarrow> Inl (Error ''TypeError: unsupported operand'')
                | Some max_fake \<Rightarrow>
                    Inr [(''verdict'',
                            JStr (if 0 < fake_count then ''Tampering Detected''
                                  else ''Likely Original'')),
                         (''authenticity_score'', JFloat ((100 - max_fake) / 100)),
                         (''metadata'', metadata V),
                         (''visual_analysis'', JObj visuals)])))"

section \<open>audio\_agent\<close>

text \<open>
  The remote steps of one transcription:
  \<^item> \<open>environ_key\<close>: \<^verbatim>\<open>os.environ.get("ASSEMBLYAI_API_KEY")\<close>
  \<^item> \<open>upload_file_to_assemblyai\<close>, given the key: the upload URL
  \<^item> \<open>request_transcription_from_assemblyai\<close>, given the upload URL: the initial transcript
  \<^item> \<open>poll_transcript_status\<close>, given the transcript id: the final transcript
\<close>

record audio_world =
  environ_key :: "string option"
  upload_file_to_assemblyai :: "string \<Rightarrow> exn + string"
  request_transcription_from_assemblyai :: "string \<Rightarrow> exn + json"
  poll_transcript_status :: "json \<Rightarrow> exn + json"

text \<open>
  \<^verbatim>\<open>
  def _get_api_key(provided_key):
      if provided_key: return provided_key
      key = os.environ.get("ASSEMBLYAI_API_KEY")
      if not key: raise ValueError("AssemblyAI API key not found. ...")
      return key
  \<close>
\<close>

definition get_api_key :: "audio_world \<Rightarrow> string option \<Rightarrow> exn + string" where
  "get_api_key W provided_key =
     (case provided_key of
        Some k \<Rightarrow>
          if k \<noteq> [] then Inr k
          else (case environ_key W of
                  Some k' \<Rightarrow> if k' \<noteq> [] then Inr k'
                             else Inl (Error ''AssemblyAI API key not found.'')
                | None \<Rightarrow> Inl (Error ''AssemblyAI API key not found.''))
      | None \<Rightarrow>
          (case environ_key W of
             Some k' \<Rightarrow> if k' \<noteq> [] then Inr k'
                        else Inl (Error ''AssemblyAI API key not found.'')
           | None \<Rightarrow> Inl (Error ''AssemblyAI API key not found.'')))"

text \<open>
  \<^verbatim>\<open>
  def normalize_transcript_output(transcript_data):
      text = transcript_data.get("text", "")
      utterances = transcript_data.get("utterances") or []
      sentiment_results = transcript_data.get("sentiment_analysis_results") or []
      return {"text": text, "utterances": utterances,
              "sentiment_analysis_results": sentiment_results, "raw": transcript_data}
  \<close>
\<close>

definition or_empty_list :: "json \<Rightarrow> json" where
  "or_empty_list v = (if truthy v then v else JArr [])"

definition normalize_transcript_output :: "json \<Rightarrow> exn + dict" where
  "normalize_transcript_output transcript_data =
     (case py_get transcript_data ''text'' (JStr []) of
        Inl e \<Rightarrow> Inl e
      | Inr text \<Rightarrow>
          (case py_get transcript_data ''utterances'' JNull of
             Inl e \<Rightarrow> Inl e
           | Inr utterances \<Rightarrow>
               (case py_get transcript_data ''sentiment_analysis_results'' JNull of
                  Inl e \<Rightarrow> Inl e
                | Inr sentiment \<Rightarrow>
                    Inr [(''text'', text),
                         (''utterances'', or_empty_list utterances),
                         (''sentiment_analysis_results'', or_empty_list sentiment),
                         (''raw'', transcript_data)])))"

text \<open>
  \<^verbatim>\<open>
  def analyze_audio_file(file_path, api_key=None, features=None):
      key = _get_api_key(api_key)
      upload_url = upload_file_to_assemblyai(file_path, api_key=key)
      transcript_initial = request_transcription_from_assemblyai(upload_url, ...)
      transcript_id = transcript_initial.get("id")
      if not transcript_id:
          raise AssemblyAIError(f"Transcription request returned no id: {transcript_initial}")
      transcript_final = poll_transcript_status(transcript_id, api_key=key)
      normalized = normalize_transcript_output(transcript_final)
      return {"fileName": os.path.basename(file_path), "transcript_id": transcript_id,
              "transcript": normalized, "status": transcript_final.get("status", "unknown")}
  \<close>
  The function has no handler: its docstring lists what it raises.
\<close>

definition analyze_audio_file ::
  "pylib \<Rightarrow> audio_world \<Rightarrow> string \<Rightarrow> string option \<Rightarrow> exn + dict" where
  "analyze_audio_file L W file_path api_key =
     (case get_api_key W api_key of
        Inl e \<Rightarrow> Inl e
      | Inr key \<Rightarrow>
          (case upload_file_to_assemblyai W key of
             Inl e \<Rightarrow> Inl e
           | Inr upload_url \<Rightarrow>
               (case request_transcription_from_assemblyai W upload_url of
                  Inl e \<Rightarrow> Inl e
                | Inr transcript_initial \<Rightarrow>
                    (case py_get transcript_initial ''id'' JNull of
                       Inl e \<Rightarrow> Inl e
                     | Inr transcript_id \<Rightarrow>
                         if \<not> truthy transcript_id
                         then Inl (Error (''Transcription request returned no id: ''
                                            @ format_value L transcript_initial))
                         else
                           (case poll_transcript_status W transcript_id of
                              Inl e \<Rightarrow> Inl e
                            | Inr transcript_final \<Rightarrow>
                                (case normalize_transcript_output transcript_final of
                                   Inl e \<Rightarrow> Inl e
                                 | Inr normalized \<Rightarrow>
                                     (case py_get transcript_final ''status'' (JStr ''unknown'') of
                                        Inl e \<Rightarrow> Inl e
                                      | Inr status \<Rightarrow>
                                          Inr [(''fileName'', JStr (basename file_path)),
                                               (''transcript_id'', transcript_id),
                                               (''transcript'', JObj normalized),
                                               (''status'', status)])))))))"

section \<open>doc\_misinfo\_agent\<close>

text \<open>\<^verbatim>\<open>c.isspace()\<close> for a code point below 256, and \<^verbatim>\<open>s.strip()\<close>.\<close>

definition is_space :: "char \<Rightarrow> bool" where
  "is_space c = (let n = (of_char c :: nat) in
     (9 \<le> n \<and> n \<le> 13) \<or> (28 \<le> n \<and> n \<le> 32) \<or> n = 133 \<or> n = 160)"

definition strip :: "string \<Rightarrow> string" where
  "strip s = rev (dropWhile is_space (rev (dropWhile is_space s)))"

text \<open>
  One document analysis: whether \<^verbatim>\<open>GEMINI_API_KEY\<close> is set, and the outcome of
  \<^verbatim>\<open>model.generate_content(text_content, ...)\<close> followed by \<^verbatim>\<open>response.text\<close>.
\<close>

record doc_world =
  doc_api_key :: bool
  doc_generate_content :: "string \<Rightarrow> exn + string"

text \<open>
  \<^verbatim>\<open>
  def run_gemini_analysis(text_content: str) -> Dict:
      _init_gemini()       # raises ValueError when GEMINI_API_KEY is not set
      if not text_content.strip():
          return {"misinformationAnalysis": {"dangerScore": 0, "flags": [],
                      "explanation": "No text content found."},
                  "summary": "Empty file.",
                  "finalReport": {"findings": "No content.", "recommendations": "Check file input."}}
      model = genai.GenerativeModel(...)
      try:
          response = model.generate_content(text_content, safety_settings=...)
          result_json = json.loads(response.text)
          score = result_json.get("misinformationAnalysis", {}).get("dangerScore", 0)
          return result_json
      except Exception as e:
          return {"misinformationAnalysis": {"dangerScore": 50,
                      "flags": [{"claim": "Analysis Error", "reasoning": str(e)}],
                      "explanation": "AI Analysis failed to process this file."},
                  "summary": "Error during analysis.",
                  "finalReport": {"findings": "System Error.", "recommendations": "Retry analysis."}}
  \<close>
\<close>

definition empty_analysis :: json where
  "empty_analysis =
     JObj [(''misinformationAnalysis'',
              JObj [(''dangerScore'', JInt 0), (''flags'', JArr []),
                    (''explanation'', JStr ''No text content found.'')]),
           (''summary'', JStr ''Empty file.''),
           (''finalReport'',
              JObj [(''findings'', JStr ''No content.''),
                    (''recommendations'', JStr ''Check file input.'')])]"

definition fallback_analysis :: "exn \<Rightarrow> json" where
  "fallback_analysis e =
     JObj [(''misinformationAnalysis'',
              JObj [(''dangerScore'', JInt 50),
                    (''flags'', JArr [JObj [(''claim'', JStr ''Analysis Error''),
                                            (''reasoning'', JStr (str_exn e))]]),
                    (''explanation'', JStr ''AI Analysis failed to process this file.'')]),
           (''summary'', JStr ''Error during analysis.''),
           (''finalReport'',
              JObj [(''findings'', JStr ''System Error.''),
                    (''recommendations'', JStr ''Retry analysis.'')])]"

definition gemini_try :: "pylib \<Rightarrow> doc_world \<Rightarrow> string \<Rightarrow> exn + json" where
  "gemini_try L W text_content =
     (case doc_generate_content W text_content of
        Inl e \<Rightarrow> Inl e
      | Inr response_text \<Rightarrow>
          (case loads L response_text of
             Inl e \<Rightarrow> Inl e
           | Inr result_json \<Rightarrow>
               (case py_get result_json ''misinformationAnalysis'' (JObj []) of
                  Inl e \<Rightarrow> Inl e
                | Inr mis \<Rightarrow>
                    (case py_get mis ''dangerScore'' (JInt 0) of
                       Inl e \<Rightarrow> Inl e
                     | Inr score \<Rightarrow> Inr result_json))))"

definition run_gemini_analysis :: "pylib \<Rightarrow> doc_world \<Rightarrow> string \<Rightarrow> exn + json" where
  "run_gemini_analysis L W text_content =
     (if \<not> doc_api_key W then Inl (Error ''GEMINI_API_KEY environment variable not set.'')
      else if strip text_content = [] then Inr empty_analysis
      else
        (case gemini_try L W text_content of
           Inr result_json \<Rightarrow> Inr result_json
         | Inl e \<Rightarrow> Inr (fallback_analysis e)))"

section \<open>A concrete library for evaluation\<close>

text \<open>
  A stand-in for the library functions, used only to evaluate the model at concrete inputs.
  Its functions are not those of Python (the digest is not SHA-256, the parser knows two
  texts); every general theorem below holds for an arbitrary library.
\<close>

definition dq :: string where
  "dq = [CHR 0x22]"

definition example_lib :: pylib where
  "example_lib =
     \<lparr>sha256_hex = (\<lambda>s. ''digest of '' @ s),
      encode_str = (\<lambda>s. dq @ s @ dq),
      int_repr = (\<lambda>n. if n = 0 then ''0'' else if n = 1 then ''1'' else if n = 50 then ''50'' else ''n''),
      float_repr = (\<lambda>r. if r = 0 then ''0.0'' else ''x.y''),
      format_value = (\<lambda>v. case v of JInt n \<Rightarrow> (if n = 0 then ''0'' else if n = 50 then ''50'' else ''n'')
                              | _ \<Rightarrow> ''value''),
      dumps_indent2 = (\<lambda>xs. ''['' @ join '', '' (map (\<lambda>s. dq @ s @ dq) xs) @ '']''),
      loads = (\<lambda>s. if s = ''{}'' then Inr (JObj [])
                   else if s = ''{'' @ dq @ ''results'' @ dq @ '':[]}''
                   then Inr (JObj [(''results'', JArr [])])
                   else Inl (Error ''Expecting value'')),
      py_float = (\<lambda>v. case num_of v of Some r \<Rightarrow> Inr r
                        | None \<Rightarrow> Inl (Error ''float() argument must be a string or a number''))\<rparr>"

text \<open>
  A concrete environment, used in the same way: every agent is present, the image agent fails
  on the path \<open>bad.png\<close>, the ledger is unreachable, and the language model answers with a
  JSON object that has one field named \<open>results\<close>.
\<close>

definition example_env :: env where
  "example_env =
     \<lparr>image_agent = Some (\<lambda>i p. if p = ''bad.png'' then Inl (Error ''connection reset'')
                                 else Inr (JObj [(''verdict'', JStr ''Likely Original'')])),
      audio_agent = Some (\<lambda>i p k. Inr (JObj [(''transcript'', JObj [(''text'', JStr ''hello'')])])),
      video_agent = Some (\<lambda>i p. Inr (JObj [(''visual_analysis'',
                                               JObj [(''fake_ratio_percent'', JInt 0)])])),
      doc_agent = Some (\<lambda>i ps. Inr ''some text'', \<lambda>i t. Inr empty_analysis),
      ledger_log = Some (\<lambda>h. Inl (Error ''node unreachable'')),
      gemini_api_key = True,
      assemblyai_env = None,
      generate_content = (\<lambda>c. Inr (''{'' @ dq @ ''results'' @ dq @ '':[]}''))\<rparr>"

section \<open>Vocabulary of the statements\<close>

text \<open>
  The tampering scores of the frames that were sampled and analysed without an exception, in
  the order of the frames: what the claims about the video agent call the scores seen.
\<close>

definition frame_score :: "pylib \<Rightarrow> exn + image_world \<Rightarrow> rat option" where
  "frame_score L frame =
     (case frame of
        Inl e \<Rightarrow> None
      | Inr W \<Rightarrow> num_of (dict_get (analyze_image_with_rd_and_gemini L W)
                            ''tamperingPercentage'' (JFloat 0)))"

fun frame_scores :: "pylib \<Rightarrow> nat \<Rightarrow> nat \<Rightarrow> (exn + image_world) list \<Rightarrow> rat list" where
  "frame_scores L frame_interval frame_idx [] = []"
| "frame_scores L frame_interval frame_idx (frame # rest) =
     (if frame_idx mod frame_interval = 0
      then (case frame_score L frame of Some x \<Rightarrow> [x] | None \<Rightarrow> [])
      else [])
     @ frame_scores L frame_interval (Suc frame_idx) rest"

text \<open>
  Two concrete videos: one whose capture reports a quarter of a frame per second and delivers
  one frame, and one at 30 frames per second whose single frame is scored 33.333.
\<close>

definition slow_video :: video_world where
  "slow_video =
     \<lparr>metadata = JObj [], opened = True, fps = 1 / 4,
      frames = [Inl (Error ''could not write the snapshot'')]\<rparr>"

definition scored_image :: image_world where
  "scored_image =
     \<lparr>presigned = Inr (''https://signed.example/upload'', JStr ''req-1''),
      upload = Inr (),
      url_request_id = Inr JNull,
      rd_result = (\<lambda>rid. Inr (JObj [(''resultsSummary'',
                     JObj [(''status'', JStr ''AUTHENTIC''),
                           (''metadata'', JObj [(''finalScore'', JFloat (33333 / 1000))])])])),
      explanation = (\<lambda>pct. Inr ''The lighting is consistent.'')\<rparr>"

definition scored_video :: video_world where
  "scored_video =
     \<lparr>metadata = JObj [], opened = True, fps = 30, frames = [Inr scored_image]\<rparr>"












text \<open>
  Two values have the same content when they are equal up to the order in which the fields of
  their dicts were inserted, at every depth: two dicts (each with pairwise distinct keys) have
  the same keys, and under each key values with the same content; two lists have the same
  length and, position by position, elements with the same content; any other two values are
  equal. This is \<^verbatim>\<open>==\<close> on the values that \<^verbatim>\<open>json.loads\<close> returns, except that it tells
  an integer from a float.
\<close>

function (sequential) same_content :: "json \<Rightarrow> json \<Rightarrow> bool" where
  "same_content (JObj a) (JObj b) =
     (distinct (map fst a) \<and> distinct (map fst b) \<and> set (map fst a) = set (map fst b)
      \<and> (\<forall>kv \<in> set a. \<forall>kv' \<in> set b. fst kv = fst kv' \<longrightarrow> same_content (snd kv) (snd kv')))"
| "same_content (JArr xs) (JArr ys) =
     (length xs = length ys \<and> (\<forall>xy \<in> set (zip xs ys). same_content (fst xy) (snd xy)))"
| "same_content x y = (x = y)"
  by pat_completeness auto
termination
proof (relation "measure (\<lambda>(x, y). size x)")
  show "wf (measure (\<lambda>(x, y). size x))" by simp
next
  fix a b :: "(string \<times> json) list" and kv kv' :: "string \<times> json"
  assume "kv \<in> set a"
  then have "size (snd kv) \<le> size_list (size_prod (\<lambda>_. 0) size) a"
    by (rule size_list_estimation') (cases kv, simp)
  then show "((snd kv, snd kv'), (JObj a, JObj b)) \<in> measure (\<lambda>(x, y). size x)" by simp
next
  fix xs ys :: "json list" and xy :: "json \<times> json"
  assume "xy \<in> set (zip xs ys)"
  then have "fst xy \<in> set xs" using set_zip_leftD [of "fst xy" "snd xy" xs ys] by simp
  then have "size (fst xy) \<le> size_list size xs"
    by (rule size_list_estimation') simp
  then show "((fst xy, snd xy), (JArr xs, JArr ys)) \<in> measure (\<lambda>(x, y). size x)"
    by (simp add: case_prod_beta)
qed

section \<open>Vocabulary of the statements about the scheduler\<close>


text \<open>
  The order the claims describe: for each category in priority order, the files of that
  category in the order they were supplied, each paired with its category.
\<close>

definition dispatch_order :: "string list \<Rightarrow> string \<Rightarrow> (string \<times> string) list" where
  "dispatch_order file_paths user_instructions =
     concat (map (\<lambda>t. map (\<lambda>p. (t, p)) (filter (\<lambda>p. category_of p = t) file_paths))
                 (parse_priority_from_instructions user_instructions))"

text \<open>One entry per dispatched file: the \<open>n\<close>-th file of the session is the \<open>n\<close>-th call.\<close>

fun entries_from ::
  "env \<Rightarrow> (string \<times> string) list \<Rightarrow> nat \<Rightarrow> (string \<times> string) list \<Rightarrow> json list" where
  "entries_from E api_keys n [] = []"
| "entries_from E api_keys n ((t, p) # rest) =
     JObj (run_pipeline_for_file E n p t api_keys) # entries_from E api_keys (Suc n) rest"

text \<open>
  The exception, if any, that the agent call for a file raises: the call of the image, audio or
  video agent, and for a document the reading of the file or the analysis of its text.
\<close>

definition call_error ::
  "env \<Rightarrow> (string \<times> string) list \<Rightarrow> nat \<Rightarrow> string \<Rightarrow> string \<Rightarrow> exn option" where
  "call_error E api_keys i t p =
     (if t = ''images'' then
        (case image_agent E of
           None \<Rightarrow> None
         | Some analyze \<Rightarrow> (case analyze i p of Inl e \<Rightarrow> Some e | Inr res \<Rightarrow> None))
      else if t = ''audio'' then
        (case audio_agent E of
           None \<Rightarrow> None
         | Some analyze \<Rightarrow>
             (case analyze i p (assemblyai_key E api_keys) of Inl e \<Rightarrow> Some e | Inr res \<Rightarrow> None))
      else if t = ''video'' then
        (case video_agent E of
           None \<Rightarrow> None
         | Some analyze \<Rightarrow> (case analyze i p of Inl e \<Rightarrow> Some e | Inr res \<Rightarrow> None))
      else if t = ''documents'' then
        (case doc_agent E of
           None \<Rightarrow> None
         | Some (read_files, analyze) \<Rightarrow>
             (case read_files i [p] of
                Inl e \<Rightarrow> Some e
              | Inr text \<Rightarrow> (case analyze i text of Inl e \<Rightarrow> Some e | Inr res \<Rightarrow> None)))
      else None)"

text \<open>How many of the calls for a sequence of files raise.\<close>

fun raising_calls ::
  "env \<Rightarrow> (string \<times> string) list \<Rightarrow> nat \<Rightarrow> (string \<times> string) list \<Rightarrow> nat" where
  "raising_calls E api_keys n [] = 0"
| "raising_calls E api_keys n ((t, p) # rest) =
     (case call_error E api_keys n t p of None \<Rightarrow> 0 | Some e \<Rightarrow> 1)
     + raising_calls E api_keys (Suc n) rest"

text \<open>An entry with \<open>error\<close> set, and a normal entry: a report and no error.\<close>

fun has_error :: "json \<Rightarrow> bool" where
  "has_error (JObj d) = has_key d ''error''"
| "has_error _ = False"

fun is_normal :: "json \<Rightarrow> bool" where
  "is_normal (JObj d) = (has_key d ''report'' \<and> \<not> has_key d ''error'')"
| "is_normal _ = False"


text \<open>
  The reports have the shape that the agents of this repository return: an audio report is a
  dict whose \<open>transcript\<close> is a dict, a video report a dict whose \<open>visual_analysis\<close> is a
  dict, a document report a dict whose \<open>misinformationAnalysis\<close> is a dict (each may be
  absent). The aggregation loop reads these fields with \<^verbatim>\<open>.get\<close> outside any handler.
\<close>

definition dict_field :: "json \<Rightarrow> string \<Rightarrow> bool" where
  "dict_field res k = (\<exists>d m. res = JObj d \<and> dict_get d k (JObj []) = JObj m)"


text \<open>The keys that \<^verbatim>\<open>results.update(meta_output)\<close> writes.\<close>

definition meta_keys :: "json \<Rightarrow> string list" where
  "meta_keys m =
     (case m of
        JObj kvs \<Rightarrow> map fst kvs
      | JArr items \<Rightarrow> map fst (List.map_filter as_pair items)
      | _ \<Rightarrow> [])"

text \<open>The meta report of a session: what the synthesis returns after the dispatch.\<close>

definition meta_report ::
  "pylib \<Rightarrow> env \<Rightarrow> string list \<Rightarrow> string \<Rightarrow> (string \<times> string) list option \<Rightarrow> exn + json" where
  "meta_report L E file_paths user_instructions api_keys =
     (case dispatch L E file_paths user_instructions api_keys of
        Inl e \<Rightarrow> Inl e
      | Inr st \<Rightarrow>
          generate_meta_intelligence L E (join nl (aggregate_text_parts st)) user_instructions
            (file_summaries st))"

text \<open>\<^verbatim>\<open>api_keys or {}\<close>\<close>

definition keys_or_empty :: "(string \<times> string) list option \<Rightarrow> (string \<times> string) list" where
  "keys_or_empty api_keys = (case api_keys of None \<Rightarrow> [] | Some d \<Rightarrow> d)"

text \<open>The \<open>file\<close> field of an entry.\<close>

definition entry_file :: "json \<Rightarrow> json" where
  "entry_file j = (case j of JObj d \<Rightarrow> dict_get d ''file'' JNull | _ \<Rightarrow> JNull)"

text \<open>The same environment without a key for the language model.\<close>

definition offline_env :: env where
  "offline_env = example_env\<lparr>gemini_api_key := False\<rparr>"

text \<open>
  Two bundles with the same content: the fields of the bundle and the fields of its one result
  entry were inserted in different orders.
\<close>

definition bundle_one :: json where
  "bundle_one =
     JObj [(''session_id'', JStr ''s1''),
           (''results'', JArr [JObj [(''file'', JStr ''a.txt''), (''type'', JStr ''document'')]])]"

definition bundle_two :: json where
  "bundle_two =
     JObj [(''results'', JArr [JObj [(''type'', JStr ''document''), (''file'', JStr ''a.txt'')]]),
           (''session_id'', JStr ''s1'')]"

text \<open>
  The prompt of the synthesis with a given evidence text in its \<^verbatim>\<open>EVIDENCE\<close> line: the
  f-string of \<^verbatim>\<open>_generate_meta_intelligence\<close> with the slice left out.
\<close>

definition evidence_prompt :: "pylib \<Rightarrow> string \<Rightarrow> string list \<Rightarrow> string \<Rightarrow> string" where
  "evidence_prompt L user_instructions summaries evidence =
     nl @ ''    You are the '' @ [CHR 0x27] @ ''Meta-Investigator'' @ [CHR 0x27] @ '' AI.'' @ nl
     @ ''    USER INSTRUCTIONS: '' @ user_instructions @ nl
     @ ''    FILE SUMMARIES: '' @ dumps_indent2 L summaries @ nl
     @ ''    EVIDENCE: '' @ evidence @ nl
     @ ''    ''"

text \<open>
  A language model that answers with the prompt it was given, a parser that returns its input
  as a string, so that the answer of the synthesis shows the prompt; a language model that is
  out of quota; and a corpus of 25007 characters.
\<close>

definition echo_lib :: pylib where
  "echo_lib = example_lib\<lparr>loads := (\<lambda>s. Inr (JStr s))\<rparr>"

definition echo_env :: env where
  "echo_env = example_env\<lparr>generate_content := (\<lambda>c. Inr c)\<rparr>"

definition quota_env :: env where
  "quota_env = example_env\<lparr>generate_content := (\<lambda>c. Inl (Error ''429 quota exceeded''))\<rparr>"

definition long_corpus :: string where
  "long_corpus = replicate 25000 (CHR ''a'') @ ''the end''"

text \<open>The same environment when the import of the video agent failed.\<close>

definition no_video_env :: env where
  "no_video_env = example_env\<lparr>video_agent := None\<rparr>"

text \<open>
  The session of one document in the environment without a key: the state of the dispatch loop
  at its end, the meta report, and the bundle as it is when the hash is taken.
\<close>

definition session_state :: acc where
  "session_state =
     \<lparr>results = [JObj [(''file'', JStr ''a.txt''), (''type'', JStr ''document''),
                        (''report'', empty_analysis), (''text'', JStr ''some text'')]],
      aggregate_text_parts = [''--- DOCUMENT: a.txt ---'' @ nl @ ''some text'' @ nl],
      file_summaries = [''a.txt: DANGER SCORE 0/100.'']\<rparr>"

definition offline_report :: json where
  "offline_report =
     JObj [(''final_summary'', JStr ''AI key missing.''),
           (''entities'', JArr []), (''relations'', JArr [])]"

definition session_bundle :: dict where
  "session_bundle =
     [(''session_id'', JStr ''s1''), (''results'', JArr (results session_state)),
      (''final_summary'', JStr ''AI key missing.''),
      (''entities'', JArr []), (''relations'', JArr [])]"

section \<open>Properties of the priority order\<close>

lemma parse_priority_let:
  assumes "a \<noteq> b" "a \<noteq> c" "a \<noteq> d" "b \<noteq> c" "b \<noteq> d" "c \<noteq> d"
    and "M a = PA x" "M b = PB x" "M c = PC x" "M d = PD x"
  shows "(let instr = x;
              b0 = [];
              b1 = (if PA instr then b0 @ [a] else b0);
              b2 = (if PB instr then b1 @ [b] else b1);
              b3 = (if PC instr then b2 @ [c] else b2);
              b4 = (if PD instr then b3 @ [d] else b3)
          in foldl append_missing b4 [d, c, b, a])
         = filter M [a, b, c, d] @ filter (\<lambda>t. \<not> M t) [d, c, b, a]"
  using assms
  by (cases "PA x"; cases "PB x"; cases "PC x"; cases "PD x")
     (simp_all add: append_missing_def Let_def)

lemma partition_order:
  assumes r: "r = filter M xs @ filter (\<lambda>t. \<not> M t) ys"
    and "p < length r" "q < length r" "M (r ! p)" "\<not> M (r ! q)"
  shows "p < q"
proof (rule ccontr)
  assume "\<not> p < q"
  then have qp: "q \<le> p" by simp
  have "\<not> q < length (filter M xs)"
  proof
    assume q: "q < length (filter M xs)"
    then have "r ! q = filter M xs ! q" using r by (simp add: nth_append)
    moreover have "filter M xs ! q \<in> set (filter M xs)" using q by (rule nth_mem)
    ultimately have "M (r ! q)" by simp
    then show False using assms(5) by simp
  qed
  then have np: "\<not> p < length (filter M xs)" using qp by simp
  then have e: "r ! p = filter (\<lambda>t. \<not> M t) ys ! (p - length (filter M xs))"
    using r by (simp add: nth_append)
  have "p - length (filter M xs) < length (filter (\<lambda>t. \<not> M t) ys)"
    using np assms(2) r by simp
  then have "filter (\<lambda>t. \<not> M t) ys ! (p - length (filter M xs)) \<in> set (filter (\<lambda>t. \<not> M t) ys)"
    by (rule nth_mem)
  then have "\<not> M (r ! p)" using e by simp
  then show False using assms(4) by simp
qed

lemma partition_perm:
  assumes "mset ys = mset xs"
  shows "mset (filter M xs @ filter (\<lambda>t. \<not> M t) ys) = mset xs"
proof -
  have "mset (filter (\<lambda>t. \<not> M t) ys) = filter_mset (\<lambda>t. \<not> M t) (mset ys)"
    by simp
  then have "mset (filter (\<lambda>t. \<not> M t) ys) = filter_mset (\<lambda>t. \<not> M t) (mset xs)"
    using assms by simp
  then show ?thesis by simp
qed


lemma mentioned_simps:
  "mentioned i ''audio'' = any_in [''transcript'', ''audio''] (lower i)"
  "mentioned i ''images'' = any_in [''image'', ''photo'', ''fake''] (lower i)"
  "mentioned i ''video'' = any_in [''video'', ''clip'', ''mp4''] (lower i)"
  "mentioned i ''documents'' = any_in [''doc'', ''file'', ''text''] (lower i)"
  by (simp_all add: mentioned_def category_keywords_def)

lemma parse_priority_decomp:
  "parse_priority_from_instructions i =
     filter (mentioned i) [''audio'', ''images'', ''video'', ''documents'']
     @ filter (\<lambda>t. \<not> mentioned i t) [''documents'', ''video'', ''images'', ''audio'']"
  unfolding parse_priority_from_instructions_def
  by (rule parse_priority_let) (simp_all add: mentioned_simps)

lemma partition_props:
  assumes r: "r = filter M xs @ filter (\<lambda>t. \<not> M t) ys"
    and ms: "mset ys = mset xs" and dx: "distinct xs"
  shows "mset r = mset xs" "distinct r" "set r = set xs" "length r = length xs"
    "filter (\<lambda>t. \<not> M t) r = filter (\<lambda>t. \<not> M t) ys"
proof -
  show p: "mset r = mset xs" unfolding r by (rule partition_perm [OF ms])
  show "distinct r" using mset_eq_imp_distinct_iff [OF p] dx by simp
  show "set r = set xs" using p by (rule mset_eq_setD)
  show "length r = length xs" using p by (rule mset_eq_length)
  show "filter (\<lambda>t. \<not> M t) r = filter (\<lambda>t. \<not> M t) ys"
    unfolding r by simp
qed

text \<open>
  Claim C2. For every instruction string, the empty one included, the priority order is a
  permutation of the four categories audio, images, video, documents: no duplicate, none
  missing, four entries. Every category the instruction mentions stands before every category
  it does not mention, and the categories it does not mention stand in the fallback order
  documents, video, images, audio.
\<close>

theorem priority_order_permutation:
  "mset (parse_priority_from_instructions i) = mset [''audio'', ''images'', ''video'', ''documents'']
   \<and> distinct (parse_priority_from_instructions i)
   \<and> set (parse_priority_from_instructions i) = {''audio'', ''images'', ''video'', ''documents''}
   \<and> length (parse_priority_from_instructions i) = 4
   \<and> (\<forall>p q. p < 4 \<and> q < 4
          \<and> mentioned i (parse_priority_from_instructions i ! p)
          \<and> \<not> mentioned i (parse_priority_from_instructions i ! q) \<longrightarrow> p < q)
   \<and> filter (\<lambda>t. \<not> mentioned i t) (parse_priority_from_instructions i)
       = filter (\<lambda>t. \<not> mentioned i t) [''documents'', ''video'', ''images'', ''audio'']"
proof -
  define r where "r = parse_priority_from_instructions i"
  define xs where "xs = [''audio'', ''images'', ''video'', ''documents'']"
  define ys where "ys = [''documents'', ''video'', ''images'', ''audio'']"
  have r: "r = filter (mentioned i) xs @ filter (\<lambda>t. \<not> mentioned i t) ys"
    unfolding r_def xs_def ys_def by (rule parse_priority_decomp)
  have dx: "distinct xs" unfolding xs_def by simp
  have ms: "mset ys = mset xs" unfolding xs_def ys_def by (simp add: add.commute add.left_commute)
  have lx: "length xs = 4" unfolding xs_def by simp
  have sx: "set xs = {''audio'', ''images'', ''video'', ''documents''}" unfolding xs_def by simp
  note P = partition_props [OF r ms dx]
  have ord: "\<forall>p q. p < 4 \<and> q < 4 \<and> mentioned i (r ! p) \<and> \<not> mentioned i (r ! q) \<longrightarrow> p < q"
  proof (intro allI impI)
    fix p q assume a: "p < 4 \<and> q < 4 \<and> mentioned i (r ! p) \<and> \<not> mentioned i (r ! q)"
    have l: "length r = 4" using P(4) lx by simp
    show "p < q"
      by (rule partition_order [OF r]) (use a l in simp_all)
  qed
  have "mset r = mset xs \<and> distinct r \<and> set r = set xs \<and> length r = 4 \<and>
        (\<forall>p q. p < 4 \<and> q < 4 \<and> mentioned i (r ! p) \<and> \<not> mentioned i (r ! q) \<longrightarrow> p < q) \<and>
        filter (\<lambda>t. \<not> mentioned i t) r = filter (\<lambda>t. \<not> mentioned i t) ys"
    using P lx ord by simp
  then show ?thesis unfolding r_def sx unfolding xs_def ys_def .
qed

lemma parse_example:
  "parse_priority_from_instructions ''Check the VIDEO clip and any photo''
     = [''images'', ''video'', ''documents'', ''audio'']"
  by code_simp

lemma mentioned_example:
  "mentioned ''Check the VIDEO clip and any photo'' ''images''"
  "\<not> mentioned ''Check the VIDEO clip and any photo'' ''audio''"
  by code_simp+

theorem priority_order_permutation_witness:
  "(0::nat) < 4 \<and> (3::nat) < 4
   \<and> mentioned ''Check the VIDEO clip and any photo''
        (parse_priority_from_instructions ''Check the VIDEO clip and any photo'' ! 0)
   \<and> \<not> mentioned ''Check the VIDEO clip and any photo''
        (parse_priority_from_instructions ''Check the VIDEO clip and any photo'' ! 3)
   \<and> parse_priority_from_instructions ''Check the VIDEO clip and any photo''
        = [''images'', ''video'', ''documents'', ''audio'']
   \<and> parse_priority_from_instructions [] = [''documents'', ''video'', ''images'', ''audio'']
   \<and> distinct (parse_priority_from_instructions ''Check the VIDEO clip and any photo'')"
proof -
  have e: "parse_priority_from_instructions [] = [''documents'', ''video'', ''images'', ''audio'']"
    by code_simp
  have d: "distinct (parse_priority_from_instructions ''Check the VIDEO clip and any photo'')"
    using priority_order_permutation [of "''Check the VIDEO clip and any photo''"] by (rule conjunct1 [OF conjunct2])
  show ?thesis
    using d e by (simp add: parse_example mentioned_example)
qed

section \<open>Determinism of the proof hash\<close>

lemma sorted_keys_unique:
  fixes a b :: "('k::linorder \<times> 'v) list"
  assumes "distinct (map fst a)" and "distinct (map fst b)"
    and "set (map fst a) = set (map fst b)"
  shows "map fst (sort_key fst a) = map fst (sort_key fst b)"
proof (rule sorted_distinct_set_unique)
  show "sorted (map fst (sort_key fst a))" by simp
  show "sorted (map fst (sort_key fst b))" by simp
  have "mset (map fst (sort_key fst a)) = mset (map fst a)" by simp
  then show "distinct (map fst (sort_key fst a))"
    using assms(1) mset_eq_imp_distinct_iff by blast
  have "mset (map fst (sort_key fst b)) = mset (map fst b)" by simp
  then show "distinct (map fst (sort_key fst b))"
    using assms(2) mset_eq_imp_distinct_iff by blast
  show "set (map fst (sort_key fst a)) = set (map fst (sort_key fst b))"
    using assms(3) by simp
qed

lemma map_eq_by_keys:
  assumes k: "map fst sa = map fst sb"
    and v: "\<And>x y. x \<in> set sa \<Longrightarrow> y \<in> set sb \<Longrightarrow> fst x = fst y \<Longrightarrow> g (snd x) = g (snd y)"
  shows "map (\<lambda>kv. h (fst kv) @ c @ g (snd kv)) sa = map (\<lambda>kv. h (fst kv) @ c @ g (snd kv)) sb"
proof (rule nth_equalityI)
  have l: "length sa = length sb" using k by (rule map_eq_imp_length_eq)
  then show "length (map (\<lambda>kv. h (fst kv) @ c @ g (snd kv)) sa)
               = length (map (\<lambda>kv. h (fst kv) @ c @ g (snd kv)) sb)" by simp
  fix i assume "i < length (map (\<lambda>kv. h (fst kv) @ c @ g (snd kv)) sa)"
  then have i: "i < length sa" "i < length sb" using l by simp_all
  have "map fst sa ! i = map fst sb ! i" using k by simp
  then have f: "fst (sa ! i) = fst (sb ! i)" using i by simp
  have "g (snd (sa ! i)) = g (snd (sb ! i))"
    using v [of "sa ! i" "sb ! i"] i f by simp
  then show "map (\<lambda>kv. h (fst kv) @ c @ g (snd kv)) sa ! i
               = map (\<lambda>kv. h (fst kv) @ c @ g (snd kv)) sb ! i"
    using i f by simp
qed

lemma map_eq_by_zip:
  assumes l: "length xs = length ys"
    and v: "\<And>xy. xy \<in> set (zip xs ys) \<Longrightarrow> g (fst xy) = g (snd xy)"
  shows "map g xs = map g ys"
proof (rule nth_equalityI)
  show "length (map g xs) = length (map g ys)" using l by simp
  fix i assume "i < length (map g xs)"
  then have i: "i < length xs" "i < length ys" using l by simp_all
  then have "(xs ! i, ys ! i) \<in> set (zip xs ys)"
    by (auto simp: set_zip)
  then have "g (xs ! i) = g (ys ! i)" using v [of "(xs ! i, ys ! i)"] by simp
  then show "map g xs ! i = map g ys ! i" using i by simp
qed

lemma same_content_dumps:
  "same_content x y \<Longrightarrow> dumps L x = dumps L y"
proof (induction x y rule: same_content.induct)
  case (1 a b)
  have d: "distinct (map fst a)" "distinct (map fst b)" "set (map fst a) = set (map fst b)"
    using "1.prems" by simp_all
  have c: "\<And>kv kv'. kv \<in> set a \<Longrightarrow> kv' \<in> set b \<Longrightarrow> fst kv = fst kv'
             \<Longrightarrow> same_content (snd kv) (snd kv')"
    using "1.prems" by simp
  have k: "map fst (sort_key fst a) = map fst (sort_key fst b)"
    using d by (rule sorted_keys_unique)
  have "map (\<lambda>kv. encode_str L (fst kv) @ '':'' @ dumps L (snd kv)) (sort_key fst a)
          = map (\<lambda>kv. encode_str L (fst kv) @ '':'' @ dumps L (snd kv)) (sort_key fst b)"
  proof (rule map_eq_by_keys [OF k])
    fix x y assume xy: "x \<in> set (sort_key fst a)" "y \<in> set (sort_key fst b)" "fst x = fst y"
    then have m: "x \<in> set a" "y \<in> set b" by simp_all
    show "dumps L (snd x) = dumps L (snd y)"
      using "1.IH" d m xy(3) c [OF m xy(3)] by blast
  qed
  then show ?case by simp
next
  case (2 xs ys)
  have l: "length xs = length ys" using "2.prems" by simp
  have c: "\<And>xy. xy \<in> set (zip xs ys) \<Longrightarrow> same_content (fst xy) (snd xy)"
    using "2.prems" by simp
  have "map (dumps L) xs = map (dumps L) ys"
  proof (rule map_eq_by_zip [OF l])
    fix xy assume m: "xy \<in> set (zip xs ys)"
    show "dumps L (fst xy) = dumps L (snd xy)"
      using "2.IH" l m c [OF m] by blast
  qed
  then show ?case by simp
qed simp_all

text \<open>
  Claim C5. The proof hash depends only on the key/value content of the bundle: two bundles
  with the same content, that is with the same keys mapped to values with the same content,
  whatever the order in which the fields of the bundle and of the dicts nested in it (the
  result entries, the reports) were inserted, have the same digest. The serialization writes
  the items of every dict in the order of the sorted keys, with a comma and a colon and no
  space.
\<close>

theorem make_hash_insertion_order:
  assumes "same_content x y"
  shows "make_hash L x = make_hash L y"
  using same_content_dumps [OF assms] by (simp add: make_hash_def)

lemma bundles_same_content: "same_content bundle_one bundle_two"
  unfolding bundle_one_def bundle_two_def by (simp add: insert_commute)

lemma bundles_differ: "bundle_one \<noteq> bundle_two"
  unfolding bundle_one_def bundle_two_def by simp

theorem make_hash_insertion_order_witness:
  "same_content bundle_one bundle_two
   \<and> bundle_one \<noteq> bundle_two
   \<and> make_hash example_lib bundle_one = make_hash example_lib bundle_two
   \<and> make_hash example_lib bundle_two
       = ''digest of {'' @ dq @ ''results'' @ dq @ '':[{'' @ dq @ ''file'' @ dq @ '':'' @ dq
           @ ''a.txt'' @ dq @ '','' @ dq @ ''type'' @ dq @ '':'' @ dq @ ''document'' @ dq
           @ ''}],'' @ dq @ ''session_id'' @ dq @ '':'' @ dq @ ''s1'' @ dq @ ''}''"
proof -
  have "make_hash example_lib bundle_two
       = ''digest of {'' @ dq @ ''results'' @ dq @ '':[{'' @ dq @ ''file'' @ dq @ '':'' @ dq
           @ ''a.txt'' @ dq @ '','' @ dq @ ''type'' @ dq @ '':'' @ dq @ ''document'' @ dq
           @ ''}],'' @ dq @ ''session_id'' @ dq @ '':'' @ dq @ ''s1'' @ dq @ ''}''"
    by code_simp
  then show ?thesis
    using make_hash_insertion_order [OF bundles_same_content, of example_lib]
      bundles_same_content bundles_differ by simp
qed

section \<open>The evidence forwarded to the synthesis\<close>

lemma meta_context_prompt:
  "meta_context L agg instr summaries = evidence_prompt L instr summaries (take 25000 agg)"
  by (simp add: meta_context_def evidence_prompt_def)

lemma evidence_prompt_split:
  "evidence_prompt L instr summaries evidence =
     (nl @ ''    You are the '' @ [CHR 0x27] @ ''Meta-Investigator'' @ [CHR 0x27] @ '' AI.'' @ nl
      @ ''    USER INSTRUCTIONS: '' @ instr @ nl
      @ ''    FILE SUMMARIES: '' @ dumps_indent2 L summaries @ nl
      @ ''    EVIDENCE: '')
     @ evidence @ (nl @ ''    '')"
  by (simp add: evidence_prompt_def)

lemma forwarded_raises:
  assumes "gemini_api_key E"
    and "generate_content E (evidence_prompt L instr summaries (take 25000 agg)) = Inl e"
  shows "generate_meta_intelligence L E agg instr summaries = Inl e"
  using assms by (simp add: generate_meta_intelligence_def meta_context_prompt)

lemma forwarded_parsed:
  assumes "gemini_api_key E"
    and "generate_content E (evidence_prompt L instr summaries (take 25000 agg)) = Inr body"
    and "loads L body = Inr j"
  shows "generate_meta_intelligence L E agg instr summaries = Inr j"
  using assms by (simp add: generate_meta_intelligence_def meta_context_prompt)

lemma forwarded_unparsed:
  assumes "gemini_api_key E"
    and "generate_content E (evidence_prompt L instr summaries (take 25000 agg)) = Inr body"
    and "loads L body = Inl e"
  shows "generate_meta_intelligence L E agg instr summaries
           = Inr (JObj [(''final_summary'', JStr (take 500 body)),
                        (''entities'', JArr []), (''relations'', JArr [])])"
  using assms by (simp add: generate_meta_intelligence_def meta_context_prompt)

lemma only_the_prompt:
  assumes "gemini_api_key E" and "gemini_api_key E'"
    and "generate_content E' (evidence_prompt L instr summaries (take 25000 agg))
           = generate_content E (evidence_prompt L instr summaries (take 25000 agg))"
  shows "generate_meta_intelligence L E' agg instr summaries
           = generate_meta_intelligence L E agg instr summaries"
  using assms by (simp add: generate_meta_intelligence_def meta_context_prompt)

text \<open>
  Claim C9. The prompt built by the synthesis step is the fixed prompt text with, as its
  evidence, the first 25000 characters of the aggregate text (the whole text when that is
  shorter), a prefix of the corpus; and this prompt is what is forwarded to the language
  model: with the key set, the step raises what the model raises on this prompt, returns what
  the parser makes of the model's answer to this prompt (or, when the answer does not parse,
  the fallback with the first 500 characters of that answer), and depends on the model through
  its answer to this prompt only. So the step gives the same result for the corpus and for its
  prefix.
\<close>

theorem synthesis_sees_prefix_only:
  "meta_context L agg instr summaries = evidence_prompt L instr summaries (take 25000 agg)
   \<and> (\<exists>pre post. \<forall>evidence. evidence_prompt L instr summaries evidence = pre @ evidence @ post)
   \<and> prefix (take 25000 agg) agg
   \<and> length (take 25000 agg) = min 25000 (length agg)
   \<and> (length agg \<le> 25000 \<longrightarrow> take 25000 agg = agg)
   \<and> generate_meta_intelligence L E agg instr summaries
       = generate_meta_intelligence L E (take 25000 agg) instr summaries
   \<and> (gemini_api_key E
        \<and> generate_content E (evidence_prompt L instr summaries (take 25000 agg)) = Inl e
        \<longrightarrow> generate_meta_intelligence L E agg instr summaries = Inl e)
   \<and> (gemini_api_key E
        \<and> generate_content E (evidence_prompt L instr summaries (take 25000 agg)) = Inr body
        \<and> loads L body = Inr j
        \<longrightarrow> generate_meta_intelligence L E agg instr summaries = Inr j)
   \<and> (gemini_api_key E
        \<and> generate_content E (evidence_prompt L instr summaries (take 25000 agg)) = Inr body
        \<and> loads L body = Inl e
        \<longrightarrow> generate_meta_intelligence L E agg instr summaries
              = Inr (JObj [(''final_summary'', JStr (take 500 body)),
                           (''entities'', JArr []), (''relations'', JArr [])]))
   \<and> (gemini_api_key E \<and> gemini_api_key E'
        \<and> generate_content E' (evidence_prompt L instr summaries (take 25000 agg))
            = generate_content E (evidence_prompt L instr summaries (take 25000 agg))
        \<longrightarrow> generate_meta_intelligence L E' agg instr summaries
              = generate_meta_intelligence L E agg instr summaries)"
proof -
  have 1: "\<exists>pre post. \<forall>evidence. evidence_prompt L instr summaries evidence = pre @ evidence @ post"
    using evidence_prompt_split by blast
  have 2: "prefix (take 25000 agg) agg" by (rule take_is_prefix)
  have 3: "generate_meta_intelligence L E agg instr summaries
       = generate_meta_intelligence L E (take 25000 agg) instr summaries"
    unfolding generate_meta_intelligence_def by (simp add: meta_context_prompt)
  have 4: "length (take 25000 agg) = min 25000 (length agg)"
    "length agg \<le> 25000 \<longrightarrow> take 25000 agg = agg"
    by simp_all
  show ?thesis
    using 1 2 3 4 meta_context_prompt [of L agg instr summaries]
      forwarded_raises [of E L instr summaries agg e]
      forwarded_parsed [of E L instr summaries agg body j]
      forwarded_unparsed [of E L instr summaries agg body e]
      only_the_prompt [of E E' L instr summaries agg]
    by blast
qed

lemma long_corpus_prefix:
  "length long_corpus = 25007" "take 25000 long_corpus = replicate 25000 (CHR ''a'')"
  by (simp_all add: long_corpus_def)

lemma echo_facts:
  "gemini_api_key echo_env" "generate_content echo_env c = Inr c" "loads echo_lib s = Inr (JStr s)"
  "gemini_api_key quota_env" "generate_content quota_env c = Inl (Error ''429 quota exceeded'')"
  by (simp_all add: echo_env_def echo_lib_def quota_env_def example_env_def)

lemma example_loads_prompt:
  "loads example_lib (evidence_prompt example_lib instr summaries ev) = Inl (Error ''Expecting value'')"
  by (simp add: example_lib_def evidence_prompt_def nl_def dq_def)

theorem synthesis_sees_prefix_only_witness:
  "length long_corpus = 25007
   \<and> take 25000 long_corpus = replicate 25000 (CHR ''a'')
   \<and> gemini_api_key echo_env
   \<and> generate_content echo_env (evidence_prompt echo_lib ''go'' [] (take 25000 long_corpus))
       = Inr (evidence_prompt echo_lib ''go'' [] (take 25000 long_corpus))
   \<and> loads echo_lib (evidence_prompt echo_lib ''go'' [] (take 25000 long_corpus))
       = Inr (JStr (evidence_prompt echo_lib ''go'' [] (take 25000 long_corpus)))
   \<and> generate_meta_intelligence echo_lib echo_env long_corpus ''go'' []
       = Inr (JStr (evidence_prompt echo_lib ''go'' [] (replicate 25000 (CHR ''a''))))
   \<and> loads example_lib (evidence_prompt example_lib ''go'' [] (take 25000 long_corpus))
       = Inl (Error ''Expecting value'')
   \<and> generate_meta_intelligence example_lib echo_env long_corpus ''go'' []
       = Inr (JObj [(''final_summary'',
                       JStr (take 500 (evidence_prompt example_lib ''go'' []
                                         (replicate 25000 (CHR ''a''))))),
                    (''entities'', JArr []), (''relations'', JArr [])])
   \<and> gemini_api_key quota_env
   \<and> generate_content quota_env (evidence_prompt echo_lib ''go'' [] (take 25000 long_corpus))
       = Inl (Error ''429 quota exceeded'')
   \<and> generate_meta_intelligence echo_lib quota_env long_corpus ''go'' []
       = Inl (Error ''429 quota exceeded'')
   \<and> length ''abc'' \<le> 25000 \<and> take 25000 ''abc'' = ''abc''"
proof -
  note a = synthesis_sees_prefix_only
             [where L = echo_lib and E = echo_env and agg = long_corpus and instr = "''go''"
                and summaries = "[]"
                and body = "evidence_prompt echo_lib ''go'' [] (take 25000 long_corpus)"
                and j = "JStr (evidence_prompt echo_lib ''go'' [] (take 25000 long_corpus))"]
  note b = synthesis_sees_prefix_only
             [where L = example_lib and E = echo_env and agg = long_corpus and instr = "''go''"
                and summaries = "[]"
                and body = "evidence_prompt example_lib ''go'' [] (take 25000 long_corpus)"
                and e = "Error ''Expecting value''"]
  note c = synthesis_sees_prefix_only
             [where L = echo_lib and E = quota_env and agg = long_corpus and instr = "''go''"
                and summaries = "[]" and e = "Error ''429 quota exceeded''"]
  have 1: "generate_meta_intelligence echo_lib echo_env long_corpus ''go'' []
       = Inr (JStr (evidence_prompt echo_lib ''go'' [] (take 25000 long_corpus)))"
    using a echo_facts(1,2,3) by blast
  have 2: "generate_meta_intelligence example_lib echo_env long_corpus ''go'' []
       = Inr (JObj [(''final_summary'',
                       JStr (take 500 (evidence_prompt example_lib ''go'' []
                                         (take 25000 long_corpus)))),
                    (''entities'', JArr []), (''relations'', JArr [])])"
    using b echo_facts(1,2) example_loads_prompt by blast
  have 3: "generate_meta_intelligence echo_lib quota_env long_corpus ''go'' []
       = Inl (Error ''429 quota exceeded'')"
    using c echo_facts(4,5) by blast
  have 4: "length ''abc'' \<le> 25000 \<and> take 25000 ''abc'' = ''abc''"
    by simp
  show ?thesis
    using 1 2 3 4 long_corpus_prefix echo_facts example_loads_prompt
    by (simp only: simp_thms)
qed

section \<open>The degraded default of the document agent\<close>

lemma fallback_fields:
  "\<exists>mis flag flags.
      py_get (fallback_analysis e) ''misinformationAnalysis'' JNull = Inr mis
    \<and> py_get mis ''dangerScore'' JNull = Inr (JInt 50)
    \<and> py_get mis ''flags'' JNull = Inr (JArr (flag # flags))"
  by (simp add: fallback_analysis_def py_get_def dict_get_def)

text \<open>
  Claim C7. When the key is set and the text is not blank, so that the risk-scoring call is
  made, and the call raises, or its response does not parse, or what it parses to is not a
  dict, then \<open>run_gemini_analysis\<close> does not raise: it returns the fixed default, whose
  \<open>misinformationAnalysis.dangerScore\<close> is 50 and whose \<open>flags\<close> list is not empty.
\<close>

theorem degraded_default_on_failure:
  assumes "doc_api_key W" and "strip text_content \<noteq> []"
    and "doc_generate_content W text_content = Inl e
         \<or> (\<exists>rt. doc_generate_content W text_content = Inr rt \<and> loads L rt = Inl e)
         \<or> (\<exists>rt j. doc_generate_content W text_content = Inr rt \<and> loads L rt = Inr j
               \<and> py_get j ''misinformationAnalysis'' (JObj []) = Inl e)"
  shows "run_gemini_analysis L W text_content = Inr (fallback_analysis e)
       \<and> (\<exists>mis flag flags.
             py_get (fallback_analysis e) ''misinformationAnalysis'' JNull = Inr mis
           \<and> py_get mis ''dangerScore'' JNull = Inr (JInt 50)
           \<and> py_get mis ''flags'' JNull = Inr (JArr (flag # flags)))"
proof -
  have "gemini_try L W text_content = Inl e"
    using assms(3) by (auto simp: gemini_try_def)
  then have "run_gemini_analysis L W text_content = Inr (fallback_analysis e)"
    using assms(1,2) by (simp add: run_gemini_analysis_def)
  then show ?thesis using fallback_fields by simp
qed


lemma strip_example: "strip ''call me now'' \<noteq> []"
  by code_simp

theorem degraded_default_on_failure_witness:
  "doc_api_key \<lparr>doc_api_key = True, doc_generate_content = (\<lambda>t. Inl (Error ''503 unavailable''))\<rparr>
   \<and> strip ''call me now'' \<noteq> []
   \<and> run_gemini_analysis example_lib
        \<lparr>doc_api_key = True, doc_generate_content = (\<lambda>t. Inl (Error ''503 unavailable''))\<rparr>
        ''call me now''
       = Inr (fallback_analysis (Error ''503 unavailable''))"
proof -
  let ?W = "\<lparr>doc_api_key = True, doc_generate_content = (\<lambda>t. Inl (Error ''503 unavailable''))\<rparr>"
  have k: "doc_api_key ?W" by simp
  have g: "doc_generate_content ?W ''call me now'' = Inl (Error ''503 unavailable'')
         \<or> (\<exists>rt. doc_generate_content ?W ''call me now'' = Inr rt
               \<and> loads example_lib rt = Inl (Error ''503 unavailable''))
         \<or> (\<exists>rt j. doc_generate_content ?W ''call me now'' = Inr rt \<and> loads example_lib rt = Inr j
               \<and> py_get j ''misinformationAnalysis'' (JObj []) = Inl (Error ''503 unavailable''))"
    by simp
  show ?thesis
    using degraded_default_on_failure [OF k strip_example g] k strip_example by blast
qed

section \<open>The video agent: verdict and authenticity score\<close>

lemma analyze_frame_score:
  "analyze_frame L frame s =
     (case frame_score L frame of
        None \<Rightarrow> s
      | Some x \<Rightarrow> s\<lparr>highest_fake_score := max x (highest_fake_score s),
                     fake_frames := fake_frames s + (if 60 < x then 1 else 0),
                     total_analyzed := total_analyzed s + 1\<rparr>)"
  by (auto simp: analyze_frame_def frame_score_def max_def split: sum.splits option.splits)

lemma scan_frames_scores:
  assumes "iv \<noteq> 0"
  shows "scan_frames L iv idx frs s =
           Inr (s\<lparr>highest_fake_score := fold max (frame_scores L iv idx frs) (highest_fake_score s),
                   fake_frames := fake_frames s + length (filter (\<lambda>x. 60 < x) (frame_scores L iv idx frs)),
                   total_analyzed := total_analyzed s + length (frame_scores L iv idx frs)\<rparr>)"
  using assms
proof (induction frs arbitrary: idx s)
  case Nil
  then show ?case by simp
next
  case (Cons fr frs)
  show ?case
  proof (cases "idx mod iv = 0")
    case False
    then show ?thesis using Cons by simp
  next
    case True
    show ?thesis
    proof (cases "frame_score L fr")
      case None
      then show ?thesis using True Cons by (simp add: analyze_frame_score)
    next
      case (Some x)
      then show ?thesis using True Cons by (simp add: analyze_frame_score)
    qed
  qed
qed

lemma scan_frames_zero_interval:
  "scan_frames L 0 idx (fr # frs) s = Inl (Error ''integer modulo by zero'')"
  by simp

lemma fold_max_Max: "fold max xs (a::rat) = Max (set (a # xs))"
  by (rule Max.set_eq_fold [symmetric])


lemma scan_frames_returns:
  assumes "iv \<noteq> 0 \<or> frs = []"
  shows "scan_frames L iv 0 frs \<lparr>total_analyzed = 0, fake_frames = 0, highest_fake_score = 0\<rparr> =
           Inr \<lparr>total_analyzed = length (frame_scores L iv 0 frs),
                fake_frames = length (filter (\<lambda>x. 60 < x) (frame_scores L iv 0 frs)),
                highest_fake_score = Max (set (0 # frame_scores L iv 0 frs))\<rparr>"
proof (cases "frs = []")
  case True
  then show ?thesis by simp
next
  case False
  then have "iv \<noteq> 0" using assms by simp
  then show ?thesis
    by (simp add: scan_frames_scores fold_max_Max del: set_simps)
qed

lemma summary_lookups:
  "dict_get (frame_summary s) ''fake_frames_count'' (JInt 0) = JInt (int (fake_frames s))"
  "dict_get (frame_summary s) ''max_fake_score'' (JInt 0) = JFloat (round2 (highest_fake_score s))"
  "dict_get (frame_summary s) ''frames_analyzed'' JNull = JInt (int (total_analyzed s))"
  "total_analyzed s = 0 \<Longrightarrow> dict_get (frame_summary s) ''fake_ratio_percent'' JNull = JInt 0"
  by (simp_all add: frame_summary_def dict_get_def)

lemma forensics_lookups:
  "dict_get [(''verdict'', v), (''authenticity_score'', a), (''metadata'', m), (''visual_analysis'', w)]
     ''verdict'' JNull = v"
  "dict_get [(''verdict'', v), (''authenticity_score'', a), (''metadata'', m), (''visual_analysis'', w)]
     ''authenticity_score'' JNull = a"
  "dict_get [(''verdict'', v), (''authenticity_score'', a), (''metadata'', m), (''visual_analysis'', w)]
     ''visual_analysis'' JNull = w"
  by (simp_all add: dict_get_def)

lemma forensics_unopened:
  assumes "\<not> opened V"
  shows "run_video_forensics L V =
           Inr [(''verdict'', JStr ''Likely Original''), (''authenticity_score'', JFloat 1),
                (''metadata'', metadata V),
                (''visual_analysis'', JObj [(''error'', JStr ''Could not open video file'')])]"
  using assms by (simp add: run_video_forensics_def analyze_video_frames_def dict_get_def)

lemma forensics_opened:
  assumes "opened V" and "frame_interval_of (fps V) \<noteq> 0 \<or> frames V = []"
  shows "run_video_forensics L V =
           Inr [(''verdict'',
                   JStr (if 0 < length (filter (\<lambda>x. 60 < x)
                                  (frame_scores L (frame_interval_of (fps V)) 0 (frames V)))
                         then ''Tampering Detected'' else ''Likely Original'')),
                (''authenticity_score'',
                   JFloat ((100 - round2 (Max (set (0 # frame_scores L (frame_interval_of (fps V)) 0
                                                         (frames V))))) / 100)),
                (''metadata'', metadata V),
                (''visual_analysis'',
                   JObj (frame_summary
                     \<lparr>total_analyzed = length (frame_scores L (frame_interval_of (fps V)) 0 (frames V)),
                      fake_frames = length (filter (\<lambda>x. 60 < x)
                                      (frame_scores L (frame_interval_of (fps V)) 0 (frames V))),
                      highest_fake_score = Max (set (0 # frame_scores L (frame_interval_of (fps V)) 0
                                                           (frames V)))\<rparr>))]"
proof -
  have a: "analyze_video_frames L V =
      Inr (frame_summary
         \<lparr>total_analyzed = length (frame_scores L (frame_interval_of (fps V)) 0 (frames V)),
          fake_frames = length (filter (\<lambda>x. 60 < x)
                                  (frame_scores L (frame_interval_of (fps V)) 0 (frames V))),
          highest_fake_score = Max (set (0 # frame_scores L (frame_interval_of (fps V)) 0
                                               (frames V)))\<rparr>)"
    using assms(1) scan_frames_returns [OF assms(2)]
    by (simp add: analyze_video_frames_def del: set_simps)
  show ?thesis
    unfolding run_video_forensics_def a
    by (simp add: summary_lookups del: set_simps)
qed

text \<open>
  Claim C8, as amended. When the capture does not open, the verdict is Likely Original and the
  authenticity score is 1. When it opens and the scan completes (the sampling interval is not
  zero, or there is no frame), the verdict is Tampering Detected exactly when at least one
  analysed frame has a tampering score above 60, and Likely Original otherwise; the
  authenticity score is (100 - m) / 100 where m is the reported \<open>max_fake_score\<close>: the
  largest of 0 and the scores of the analysed frames, rounded to two decimals.
\<close>

theorem video_verdict_and_authenticity:
  "(\<not> opened V \<longrightarrow>
      (\<exists>r. run_video_forensics L V = Inr r
         \<and> dict_get r ''verdict'' JNull = JStr ''Likely Original''
         \<and> dict_get r ''authenticity_score'' JNull = JFloat 1))
   \<and> (opened V \<and> (frame_interval_of (fps V) \<noteq> 0 \<or> frames V = []) \<longrightarrow>
      (\<exists>r visuals. run_video_forensics L V = Inr r
         \<and> dict_get r ''verdict'' JNull =
             JStr (if 0 < length (filter (\<lambda>x. 60 < x)
                            (frame_scores L (frame_interval_of (fps V)) 0 (frames V)))
                   then ''Tampering Detected'' else ''Likely Original'')
         \<and> dict_get r ''authenticity_score'' JNull =
             JFloat ((100 - round2 (Max (set (0 # frame_scores L (frame_interval_of (fps V)) 0
                                                   (frames V))))) / 100)
         \<and> dict_get r ''visual_analysis'' JNull = JObj visuals
         \<and> dict_get visuals ''max_fake_score'' (JInt 0) =
             JFloat (round2 (Max (set (0 # frame_scores L (frame_interval_of (fps V)) 0
                                            (frames V)))))))"
proof (intro conjI impI)
  assume "\<not> opened V"
  then show "\<exists>r. run_video_forensics L V = Inr r
         \<and> dict_get r ''verdict'' JNull = JStr ''Likely Original''
         \<and> dict_get r ''authenticity_score'' JNull = JFloat 1"
    by (simp add: forensics_unopened forensics_lookups)
next
  assume "opened V \<and> (frame_interval_of (fps V) \<noteq> 0 \<or> frames V = [])"
  then have o: "opened V" and i: "frame_interval_of (fps V) \<noteq> 0 \<or> frames V = []" by simp_all
  show "\<exists>r visuals. run_video_forensics L V = Inr r
         \<and> dict_get r ''verdict'' JNull =
             JStr (if 0 < length (filter (\<lambda>x. 60 < x)
                            (frame_scores L (frame_interval_of (fps V)) 0 (frames V)))
                   then ''Tampering Detected'' else ''Likely Original'')
         \<and> dict_get r ''authenticity_score'' JNull =
             JFloat ((100 - round2 (Max (set (0 # frame_scores L (frame_interval_of (fps V)) 0
                                                   (frames V))))) / 100)
         \<and> dict_get r ''visual_analysis'' JNull = JObj visuals
         \<and> dict_get visuals ''max_fake_score'' (JInt 0) =
             JFloat (round2 (Max (set (0 # frame_scores L (frame_interval_of (fps V)) 0
                                            (frames V)))))"
    unfolding forensics_opened [OF o i]
    by (simp add: forensics_lookups summary_lookups del: set_simps)
qed


lemma scored_video_result:
  "run_video_forensics example_lib scored_video =
     Inr [(''verdict'', JStr ''Likely Original''),
          (''authenticity_score'', JFloat (6667 / 10000)),
          (''metadata'', JObj []),
          (''visual_analysis'',
             JObj [(''frames_analyzed'', JInt 1),
                   (''fake_frames_count'', JInt 0),
                   (''fake_ratio_percent'', JFloat 0),
                   (''max_fake_score'', JFloat (3333 / 100)),
                   (''analysis_strategy'', JStr ''Full Timeline (1 frame / 2s)'')])]"
  by code_simp

lemma scored_video_scores:
  "frame_scores example_lib (frame_interval_of (fps scored_video)) 0 (frames scored_video)
     = [33333 / 1000]"
  by code_simp

text \<open>
  Claim C8 as stated fails: the score uses the rounded maximum. One frame scored 33.333 is
  reported as 33.33 and gives the authenticity score 0.6667, not (100 - 33.333) / 100.
\<close>

theorem authenticity_not_from_exact_maximum:
  "run_video_forensics example_lib scored_video =
     Inr [(''verdict'', JStr ''Likely Original''),
          (''authenticity_score'', JFloat (6667 / 10000)),
          (''metadata'', JObj []),
          (''visual_analysis'',
             JObj [(''frames_analyzed'', JInt 1),
                   (''fake_frames_count'', JInt 0),
                   (''fake_ratio_percent'', JFloat 0),
                   (''max_fake_score'', JFloat (3333 / 100)),
                   (''analysis_strategy'', JStr ''Full Timeline (1 frame / 2s)'')])]
   \<and> frame_scores example_lib (frame_interval_of (fps scored_video)) 0 (frames scored_video)
       = [33333 / 1000]
   \<and> JFloat (6667 / 10000) \<noteq> JFloat ((100 - 33333 / 1000) / 100)"
  using scored_video_result scored_video_scores by simp


lemma scored_video_hyps:
  "opened scored_video \<and> (frame_interval_of (fps scored_video) \<noteq> 0 \<or> frames scored_video = [])"
  by code_simp

theorem video_verdict_and_authenticity_witness:
  "\<not> opened \<lparr>metadata = JObj [], opened = False, fps = 30, frames = []\<rparr>
   \<and> (\<exists>r. run_video_forensics example_lib
               \<lparr>metadata = JObj [], opened = False, fps = 30, frames = []\<rparr> = Inr r
          \<and> dict_get r ''verdict'' JNull = JStr ''Likely Original''
          \<and> dict_get r ''authenticity_score'' JNull = JFloat 1)
   \<and> opened scored_video
   \<and> frame_interval_of (fps scored_video) = 60
   \<and> (\<exists>r. run_video_forensics example_lib scored_video = Inr r
          \<and> dict_get r ''verdict'' JNull = JStr ''Likely Original''
          \<and> dict_get r ''authenticity_score'' JNull = JFloat ((100 - round2 (33333 / 1000)) / 100))"
proof -
  have u: "\<not> opened \<lparr>metadata = JObj [], opened = False, fps = 30, frames = []\<rparr>" by simp
  have 1: "\<exists>r. run_video_forensics example_lib
               \<lparr>metadata = JObj [], opened = False, fps = 30, frames = []\<rparr> = Inr r
          \<and> dict_get r ''verdict'' JNull = JStr ''Likely Original''
          \<and> dict_get r ''authenticity_score'' JNull = JFloat 1"
    using video_verdict_and_authenticity
            [of "\<lparr>metadata = JObj [], opened = False, fps = 30, frames = []\<rparr>" example_lib] u
    by blast
  have 2: "\<exists>r. run_video_forensics example_lib scored_video = Inr r
          \<and> dict_get r ''verdict'' JNull = JStr ''Likely Original''
          \<and> dict_get r ''authenticity_score'' JNull = JFloat ((100 - round2 (33333 / 1000)) / 100)"
    using video_verdict_and_authenticity [of scored_video example_lib] scored_video_hyps
    by (auto simp: scored_video_scores)
  have 3: "opened scored_video \<and> frame_interval_of (fps scored_video) = 60" by code_simp
  show ?thesis using u 1 2 3 by blast
qed

section \<open>The video agent: no frame analysed\<close>

lemma zero_frames_ratio_guard:
  assumes "opened V" and "frame_interval_of (fps V) \<noteq> 0 \<or> frames V = []"
    and "frame_scores L (frame_interval_of (fps V)) 0 (frames V) = []"
  shows "\<exists>visuals. analyze_video_frames L V = Inr visuals
           \<and> dict_get visuals ''frames_analyzed'' JNull = JInt 0
           \<and> dict_get visuals ''fake_ratio_percent'' JNull = JInt 0"
  using assms(1,3) scan_frames_returns [OF assms(2), of L]
  by (simp add: analyze_video_frames_def summary_lookups)

text \<open>
  Claim C10: a video in which no frame is analysed gives \<open>fake_ratio_percent\<close> 0 and no
  division by zero. The division by \<open>total_analyzed\<close> is guarded (lemma
  \<open>zero_frames_ratio_guard\<close>), but the remainder by the sampling interval is not: for a
  capture that opens and reports a quarter of a frame per second, the interval
  \<open>int(0.25 * 2.0)\<close> is 0 and the first frame read raises, with no frame analysed.
\<close>

theorem low_frame_rate_raises:
  "opened slow_video
   \<and> frame_interval_of (fps slow_video) = 0
   \<and> analyze_video_frames example_lib slow_video = Inl (Error ''integer modulo by zero'')"
  by code_simp

section \<open>Error handling inside the agents\<close>



















section \<open>The scheduler: one entry per file, failures isolated\<close>

















lemma py_get_dict: "\<exists>v. py_get (JObj m) k dflt = Inr v"
  by (simp add: py_get_def)









































lemma py_get_InrD:
  assumes "py_get v k dflt = Inr x"
  shows "\<exists>d. v = JObj d \<and> x = dict_get d k dflt"
  using assms by (cases v) (simp_all add: py_get_def)

lemma gemini_try_shape:
  assumes "gemini_try L W body = Inr res"
  shows "dict_field res ''misinformationAnalysis''"
proof -
  from assms obtain rt mis score where
    "loads L rt = Inr res" and m: "py_get res ''misinformationAnalysis'' (JObj []) = Inr mis"
    and s: "py_get mis ''dangerScore'' (JInt 0) = Inr score"
    by (auto simp: gemini_try_def split: sum.splits)
  obtain d where d: "res = JObj d" "mis = dict_get d ''misinformationAnalysis'' (JObj [])"
    using py_get_InrD [OF m] by blast
  obtain d' where "mis = JObj d'" using py_get_InrD [OF s] by blast
  then show ?thesis using d by (simp add: dict_field_def)
qed

lemma document_report_shape:
  assumes "run_gemini_analysis L W body = Inr res"
  shows "dict_field res ''misinformationAnalysis''"
proof (cases "strip body = []")
  case True
  then have "res = empty_analysis" using assms by (simp add: run_gemini_analysis_def split: if_splits)
  then show ?thesis by (simp add: dict_field_def empty_analysis_def dict_get_def)
next
  case False
  show ?thesis
  proof (cases "gemini_try L W body")
    case (Inl e)
    then have "res = fallback_analysis e"
      using assms False by (simp add: run_gemini_analysis_def split: if_splits)
    then show ?thesis by (simp add: dict_field_def fallback_analysis_def dict_get_def)
  next
    case (Inr r)
    then have "res = r" using assms False by (simp add: run_gemini_analysis_def split: if_splits)
    then show ?thesis using gemini_try_shape Inr by simp
  qed
qed

lemma audio_report_shape:
  assumes "analyze_audio_file L W path key = Inr d"
  shows "dict_field (JObj d) ''transcript''"
  using assms
  by (auto simp: analyze_audio_file_def dict_field_def dict_get_def
           split: sum.splits if_splits)

lemma video_report_shape:
  assumes "run_video_forensics L V = Inr d"
  shows "dict_field (JObj d) ''visual_analysis''"
  using assms
  by (auto simp: run_video_forensics_def dict_field_def dict_get_def
           split: sum.splits option.splits)






text \<open>
  Claim C3 as stated, without the condition on the imports, fails: when the import of the
  video agent failed, a video file gives an entry with \<open>error\<close> set (and no \<open>type\<close>) although
  no call was made for it. Of three files of which exactly one has a raising call, two entries
  have \<open>error\<close> set and one is normal.
\<close>

theorem missing_agent_gives_error_entry:
  "raising_calls no_video_env (keys_or_empty None) 0
       (dispatch_order [''a.mp4'', ''bad.png'', ''c.txt''] []) = 1
   \<and> call_error no_video_env (keys_or_empty None) 1 ''video'' ''a.mp4'' = None
   \<and> dispatch example_lib no_video_env [''a.mp4'', ''bad.png'', ''c.txt''] [] None
       = Inr \<lparr>results = entries_from no_video_env (keys_or_empty None) 0
                            (dispatch_order [''a.mp4'', ''bad.png'', ''c.txt''] []),
              aggregate_text_parts = [''--- DOCUMENT: c.txt ---'' @ nl @ ''some text'' @ nl],
              file_summaries = [''c.txt: DANGER SCORE 0/100.'']\<rparr>
   \<and> entries_from no_video_env (keys_or_empty None) 0
         (dispatch_order [''a.mp4'', ''bad.png'', ''c.txt''] [])
       = [JObj [(''file'', JStr ''c.txt''), (''type'', JStr ''document''),
                (''report'', empty_analysis), (''text'', JStr ''some text'')],
          JObj [(''file'', JStr ''a.mp4''), (''error'', JStr ''Video Agent missing'')],
          JObj [(''file'', JStr ''bad.png''), (''type'', JStr ''images''),
                (''error'', JStr ''connection reset'')]]
   \<and> length (filter has_error (entries_from no_video_env (keys_or_empty None) 0
                 (dispatch_order [''a.mp4'', ''bad.png'', ''c.txt''] []))) = 2
   \<and> length (filter is_normal (entries_from no_video_env (keys_or_empty None) 0
                 (dispatch_order [''a.mp4'', ''bad.png'', ''c.txt''] []))) = 1"
  by (intro conjI; code_simp)

section \<open>The proof hash and the ledger receipt\<close>

lemma map_of_replace:
  "map_of (map (\<lambda>(k', v'). if k' = k then (k', v) else (k', v')) d) k'
     = (if k' = k then (if k \<in> fst ` set d then Some v else None) else map_of d k')"
  by (induction d) force+

lemma dict_get_set_same: "dict_get (dict_set k v d) k x = v"
proof (cases "has_key d k")
  case True
  then show ?thesis
    by (simp add: dict_get_def dict_set_def map_of_replace has_key_def)
next
  case False
  then have "map_of d k = None" by (simp add: has_key_def map_of_eq_None_iff)
  then show ?thesis using False
    by (simp add: dict_get_def dict_set_def map_add_def)
qed

lemma dict_get_set_other:
  assumes "k' \<noteq> k"
  shows "dict_get (dict_set k v d) k' x = dict_get d k' x"
  using assms
  by (auto simp: dict_get_def dict_set_def map_of_replace map_add_def split: option.splits)

lemma dict_get_update_other:
  assumes "k \<notin> fst ` set m"
  shows "dict_get (dict_update d m) k x = dict_get d k x"
  using assms unfolding dict_update_def
proof (induction m arbitrary: d)
  case Nil
  show ?case by simp
next
  case (Cons a m)
  obtain k' v' where a: "a = (k', v')" by (cases a)
  have ne: "k \<noteq> k'" and rest: "k \<notin> fst ` set m" using Cons.prems a by auto
  show ?case using Cons.IH [OF rest, of "dict_set k' v' d"] a dict_get_set_other [OF ne]
    by simp
qed

lemma py_update_keeps:
  assumes "py_update d m = Inr d'" and "k \<notin> set (meta_keys m)"
  shows "dict_get d' k x = dict_get d k x"
proof (cases m)
  case (JObj kvs)
  then show ?thesis using assms dict_get_update_other [of k kvs d x]
    by (simp add: py_update_def meta_keys_def)
next
  case (JArr items)
  then show ?thesis using assms dict_get_update_other [of k "List.map_filter as_pair items" d x]
    by (simp add: py_update_def meta_keys_def split: if_splits)
next
  case (JStr s)
  then show ?thesis using assms by (simp add: py_update_def split: if_splits)
qed (use assms in \<open>simp_all add: py_update_def\<close>)

lemma stamp_proof_hash:
  "dict_get (stamp L E bundle) ''proof_hash'' JNull = JStr (make_hash L (JObj bundle))"
proof -
  have ne: "''proof_hash'' \<noteq> ''blockchain_tx''" by simp
  show ?thesis
    by (simp add: stamp_def Let_def dict_get_set_other [OF ne] dict_get_set_same
          split: option.splits sum.splits)
qed

lemma stamp_receipt:
  assumes "ledger_log E = Some lg"
  shows "dict_get (stamp L E bundle) ''blockchain_tx'' JNull =
           (case lg (''0x'' @ make_hash L (JObj bundle)) of
              Inr tx \<Rightarrow> tx
            | Inl e \<Rightarrow> JObj [(''error'', JStr (str_exn e))])"
  using assms by (simp add: stamp_def Let_def dict_get_set_same split: sum.splits)

lemma stamp_keeps:
  assumes "k \<noteq> ''proof_hash''" and "k \<noteq> ''blockchain_tx''"
  shows "dict_get (stamp L E bundle) k x = dict_get bundle k x"
  using assms
  by (simp add: stamp_def Let_def dict_get_set_other split: option.splits sum.splits)

lemma replace_keys:
  "map fst (map (\<lambda>(k', v'). if k' = k then (k', v) else (k', v')) d) = map fst d"
  by (induction d) auto

lemma has_key_set: "has_key (dict_set k v d) k' = (k' = k \<or> has_key d k')"
proof (cases "has_key d k")
  case True
  then have "has_key (dict_set k v d) k' = has_key d k'"
    unfolding dict_set_def has_key_def by (simp only: if_True replace_keys)
  then show ?thesis using True by auto
next
  case False
  then show ?thesis by (auto simp: dict_set_def has_key_def)
qed

lemma has_key_update: "has_key (dict_update d m) k = (has_key d k \<or> k \<in> fst ` set m)"
  unfolding dict_update_def
  by (induction m arbitrary: d) (auto simp: has_key_set)

lemma py_update_has_key:
  assumes "py_update d m = Inr d'" and "k \<notin> set (meta_keys m)"
  shows "has_key d' k = has_key d k"
  using assms
  by (auto simp: py_update_def meta_keys_def has_key_update split: json.splits if_splits)

lemma assemblyai_key_ledger:
  "assemblyai_key (E\<lparr>ledger_log := lg\<rparr>) keys = assemblyai_key E keys"
  by (simp add: assemblyai_key_def split: option.splits)

lemma run_pipeline_ledger:
  "run_pipeline_for_file (E\<lparr>ledger_log := lg\<rparr>) i f t keys = run_pipeline_for_file E i f t keys"
  by (simp add: run_pipeline_for_file_def assemblyai_key_ledger Let_def
        cong del: if_weak_cong option.case_cong_weak)

lemma process_file_ledger:
  "process_file L (E\<lparr>ledger_log := lg\<rparr>) keys t f st = process_file L E keys t f st"
  by (simp add: process_file_def run_pipeline_ledger)

lemma process_bucket_ledger:
  "process_bucket L (E\<lparr>ledger_log := lg\<rparr>) keys t fs st = process_bucket L E keys t fs st"
  by (induction fs arbitrary: st) (simp_all add: process_file_ledger split: sum.splits)

lemma process_types_ledger:
  "process_types L (E\<lparr>ledger_log := lg\<rparr>) keys b ts st = process_types L E keys b ts st"
  by (induction ts arbitrary: st) (simp_all add: process_bucket_ledger split: sum.splits)

lemma dispatch_ledger:
  "dispatch L (E\<lparr>ledger_log := lg\<rparr>) paths instr keys = dispatch L E paths instr keys"
  by (simp add: dispatch_def process_types_ledger)

lemma generate_ledger:
  "generate_meta_intelligence L (E\<lparr>ledger_log := lg\<rparr>) agg instr summaries
     = generate_meta_intelligence L E agg instr summaries"
  by (simp add: generate_meta_intelligence_def)

lemma meta_process_stamps:
  assumes "dispatch L E paths instr api_keys = Inr st"
    and "generate_meta_intelligence L E (join nl (aggregate_text_parts st)) instr
           (file_summaries st) = Inr meta"
    and "merged_bundle sid st meta = Inr bundle"
  shows "meta_process L E sid paths instr api_keys = Inr (stamp L E bundle)"
  using assms by (simp add: meta_process_def Let_def)

lemma merged_bundle_no_receipt:
  assumes "merged_bundle sid st meta = Inr bundle"
    and "''blockchain_tx'' \<notin> set (meta_keys meta)"
  shows "\<not> has_key bundle ''blockchain_tx''"
  using py_update_has_key [OF assms [unfolded merged_bundle_def]]
  by (simp add: has_key_def)

text \<open>
  Claim C6. When the stages before the stamping return (the dispatch loop, the synthesis and
  the merge, giving the final bundle), \<open>meta_process\<close> returns, and the \<open>proof_hash\<close> of what
  it returns is the hash of that bundle, taken before the receipt is attached: the bundle has
  no \<open>blockchain_tx\<close> field (unless the meta report itself brought one), and the hash is the
  same whatever the ledger does, also without a ledger. If the call of the ledger raises,
  \<open>blockchain_tx\<close> is the marker that holds the text of the exception; if it returns, the
  receipt. The stamping changes no other field of the bundle.
\<close>

theorem proof_hash_before_receipt:
  assumes "dispatch L E paths instr api_keys = Inr st"
    and "generate_meta_intelligence L E (join nl (aggregate_text_parts st)) instr
           (file_summaries st) = Inr meta"
    and "merged_bundle sid st meta = Inr bundle"
  shows "meta_process L E sid paths instr api_keys = Inr (stamp L E bundle)
     \<and> dict_get (stamp L E bundle) ''proof_hash'' JNull = JStr (make_hash L (JObj bundle))
     \<and> (''blockchain_tx'' \<notin> set (meta_keys meta) \<longrightarrow> \<not> has_key bundle ''blockchain_tx'')
     \<and> (ledger_log E = Some lg \<and> lg (''0x'' @ make_hash L (JObj bundle)) = Inl e \<longrightarrow>
          dict_get (stamp L E bundle) ''blockchain_tx'' JNull
            = JObj [(''error'', JStr (str_exn e))])
     \<and> (ledger_log E = Some lg \<and> lg (''0x'' @ make_hash L (JObj bundle)) = Inr tx \<longrightarrow>
          dict_get (stamp L E bundle) ''blockchain_tx'' JNull = tx)
     \<and> (k \<noteq> ''proof_hash'' \<and> k \<noteq> ''blockchain_tx'' \<longrightarrow>
          dict_get (stamp L E bundle) k x = dict_get bundle k x)
     \<and> meta_process L (E\<lparr>ledger_log := ledger\<rparr>) sid paths instr api_keys
          = Inr (stamp L (E\<lparr>ledger_log := ledger\<rparr>) bundle)
     \<and> dict_get (stamp L (E\<lparr>ledger_log := ledger\<rparr>) bundle) ''proof_hash'' JNull
          = JStr (make_hash L (JObj bundle))"
proof (intro conjI impI; (elim conjE)?)
  show "meta_process L E sid paths instr api_keys = Inr (stamp L E bundle)"
    by (rule meta_process_stamps [OF assms])
  show "dict_get (stamp L E bundle) ''proof_hash'' JNull = JStr (make_hash L (JObj bundle))"
    by (rule stamp_proof_hash)
  show "''blockchain_tx'' \<notin> set (meta_keys meta) \<Longrightarrow> \<not> has_key bundle ''blockchain_tx''"
    by (rule merged_bundle_no_receipt [OF assms(3)])
  show "ledger_log E = Some lg \<Longrightarrow> lg (''0x'' @ make_hash L (JObj bundle)) = Inl e \<Longrightarrow>
          dict_get (stamp L E bundle) ''blockchain_tx'' JNull
            = JObj [(''error'', JStr (str_exn e))]"
    by (simp add: stamp_receipt)
  show "ledger_log E = Some lg \<Longrightarrow> lg (''0x'' @ make_hash L (JObj bundle)) = Inr tx \<Longrightarrow>
          dict_get (stamp L E bundle) ''blockchain_tx'' JNull = tx"
    by (simp add: stamp_receipt)
  show "k \<noteq> ''proof_hash'' \<Longrightarrow> k \<noteq> ''blockchain_tx'' \<Longrightarrow>
          dict_get (stamp L E bundle) k x = dict_get bundle k x"
    by (rule stamp_keeps)
  show "meta_process L (E\<lparr>ledger_log := ledger\<rparr>) sid paths instr api_keys
          = Inr (stamp L (E\<lparr>ledger_log := ledger\<rparr>) bundle)"
    by (rule meta_process_stamps [where st = st and meta = meta])
       (simp_all add: dispatch_ledger generate_ledger assms)
  show "dict_get (stamp L (E\<lparr>ledger_log := ledger\<rparr>) bundle) ''proof_hash'' JNull
          = JStr (make_hash L (JObj bundle))"
    by (rule stamp_proof_hash)
qed

lemma session_facts:
  "dispatch example_lib offline_env [''a.txt''] ''check'' None = Inr session_state"
  "generate_meta_intelligence example_lib offline_env (join nl (aggregate_text_parts session_state))
     ''check'' (file_summaries session_state) = Inr offline_report"
  "merged_bundle ''s1'' session_state offline_report = Inr session_bundle"
  "''blockchain_tx'' \<notin> set (meta_keys offline_report)"
  by code_simp+

lemma offline_ledger:
  "ledger_log offline_env = Some (\<lambda>h. Inl (Error ''node unreachable''))"
  "(\<lambda>h. Inl (Error ''node unreachable'') :: exn + json)
      (''0x'' @ make_hash example_lib (JObj session_bundle)) = Inl (Error ''node unreachable'')"
  by (simp_all add: offline_env_def example_env_def)

theorem proof_hash_before_receipt_witness:
  "dispatch example_lib offline_env [''a.txt''] ''check'' None = Inr session_state
   \<and> generate_meta_intelligence example_lib offline_env
         (join nl (aggregate_text_parts session_state)) ''check'' (file_summaries session_state)
       = Inr offline_report
   \<and> merged_bundle ''s1'' session_state offline_report = Inr session_bundle
   \<and> ledger_log offline_env = Some (\<lambda>h. Inl (Error ''node unreachable''))
   \<and> meta_process example_lib offline_env ''s1'' [''a.txt''] ''check'' None
       = Inr (stamp example_lib offline_env session_bundle)
   \<and> dict_get (stamp example_lib offline_env session_bundle) ''proof_hash'' JNull
       = JStr (make_hash example_lib (JObj session_bundle))
   \<and> \<not> has_key session_bundle ''blockchain_tx''
   \<and> dict_get (stamp example_lib offline_env session_bundle) ''blockchain_tx'' JNull
       = JObj [(''error'', JStr ''node unreachable'')]
   \<and> dict_get (stamp example_lib offline_env session_bundle) ''results'' JNull
       = JArr (results session_state)
   \<and> meta_process example_lib (offline_env\<lparr>ledger_log := None\<rparr>) ''s1'' [''a.txt''] ''check'' None
       = Inr (stamp example_lib (offline_env\<lparr>ledger_log := None\<rparr>) session_bundle)
   \<and> dict_get (stamp example_lib (offline_env\<lparr>ledger_log := None\<rparr>) session_bundle)
         ''proof_hash'' JNull
       = JStr (make_hash example_lib (JObj session_bundle))"
proof -
  note T = proof_hash_before_receipt [OF session_facts(1,2,3)]
  note c1 = T [THEN conjunct1]
  note c2 = T [THEN conjunct2, THEN conjunct1]
  note c3 = T [THEN conjunct2, THEN conjunct2, THEN conjunct1, THEN mp, OF session_facts(4)]
  have c4: "dict_get (stamp example_lib offline_env session_bundle) ''blockchain_tx'' JNull
       = JObj [(''error'', JStr ''node unreachable'')]"
    using T [THEN conjunct2, THEN conjunct2, THEN conjunct2, THEN conjunct1, THEN mp,
             OF conjI [OF offline_ledger]]
    by (simp only: str_exn.simps)
  have c6: "dict_get (stamp example_lib offline_env session_bundle) ''results'' JNull
       = JArr (results session_state)"
    using T [THEN conjunct2, THEN conjunct2, THEN conjunct2, THEN conjunct2, THEN conjunct2,
             THEN conjunct1, of "''results''" JNull]
    by (simp add: session_bundle_def dict_get_def)
  note c7 = T [THEN conjunct2, THEN conjunct2, THEN conjunct2, THEN conjunct2, THEN conjunct2,
               THEN conjunct2, THEN conjunct1, of None]
  note c8 = T [THEN conjunct2, THEN conjunct2, THEN conjunct2, THEN conjunct2, THEN conjunct2,
               THEN conjunct2, THEN conjunct2, of None]
  note all = session_facts(1,2,3) offline_ledger(1) c1 c2 c3 c4 c6 c7 c8
  show ?thesis
    by (intro conjI) (rule all)+
qed

end
